theory Spec2Isabelle
  imports Main "HOL-Library.AList"
begin

section \<open>Python strings, dictionaries and the random source\<close>

text \<open>
  Strings are ASCII character lists. The helpers below are the Python string methods
  the worker calls: \<^verbatim>\<open>str.lower\<close>, \<^verbatim>\<open>str.title\<close>, \<^verbatim>\<open>str.strip\<close>,
  \<^verbatim>\<open>str.startswith\<close>, the substring test \<^verbatim>\<open>k in s\<close>, \<^verbatim>\<open>str.rsplit\<close>,
  \<^verbatim>\<open>str(int)\<close>, the format \<^verbatim>\<open>{:+}\<close>, \<^verbatim>\<open>int(str)\<close> and \<^verbatim>\<open>re.search(r'\d+', s)\<close>.
\<close>

definition lower_char :: "char \<Rightarrow> char" where
  "lower_char c =
     (case map_of (zip ''ABCDEFGHIJKLMNOPQRSTUVWXYZ'' ''abcdefghijklmnopqrstuvwxyz'') c of
        Some d \<Rightarrow> d | None \<Rightarrow> c)"

definition upper_char :: "char \<Rightarrow> char" where
  "upper_char c =
     (case map_of (zip ''abcdefghijklmnopqrstuvwxyz'' ''ABCDEFGHIJKLMNOPQRSTUVWXYZ'') c of
        Some d \<Rightarrow> d | None \<Rightarrow> c)"

definition is_alpha :: "char \<Rightarrow> bool" where
  "is_alpha c = (c \<in> set ''abcdefghijklmnopqrstuvwxyzABCDEFGHIJKLMNOPQRSTUVWXYZ'')"

definition is_digit :: "char \<Rightarrow> bool" where
  "is_digit c = (c \<in> set ''0123456789'')"

definition is_space :: "char \<Rightarrow> bool" where
  "is_space c = (c \<in> set [CHR '' '', CHR 0x09, CHR 0x0A, CHR 0x0B, CHR 0x0C, CHR 0x0D,
                              CHR 0x1C, CHR 0x1D, CHR 0x1E, CHR 0x1F])"

definition str_lower :: "string \<Rightarrow> string" where
  "str_lower s = map lower_char s"

text \<open>\<^verbatim>\<open>str.title\<close>: a letter that follows a letter is lowered, any other letter is raised.\<close>

fun title_from :: "bool \<Rightarrow> string \<Rightarrow> string" where
  "title_from prev [] = []"
| "title_from prev (c # cs) =
     (if is_alpha c then (if prev then lower_char c else upper_char c) # title_from True cs
      else c # title_from False cs)"

definition str_title :: "string \<Rightarrow> string" where
  "str_title s = title_from False s"

definition str_strip :: "string \<Rightarrow> string" where
  "str_strip s = rev (dropWhile is_space (rev (dropWhile is_space s)))"

definition startswith :: "string \<Rightarrow> string \<Rightarrow> bool" where
  "startswith s p = (take (length p) s = p)"

text \<open>\<^verbatim>\<open>k in s\<close> for strings: \<open>k\<close> occurs in \<open>s\<close> as a contiguous run.\<close>

fun str_contains :: "string \<Rightarrow> string \<Rightarrow> bool" where
  "str_contains [] k = (k = [])"
| "str_contains (c # cs) k = (startswith (c # cs) k \<or> str_contains cs k)"

text \<open>\<^verbatim>\<open>s.split(sep, n)\<close> for a one-character separator, and \<^verbatim>\<open>s.rsplit(sep, n)\<close>,
  which is the same split read from the right.\<close>

fun split_max :: "nat \<Rightarrow> char \<Rightarrow> string \<Rightarrow> string list" where
  "split_max n sep [] = [[]]"
| "split_max 0 sep (c # cs) = [c # cs]"
| "split_max (Suc n) sep (c # cs) =
     (if c = sep then [] # split_max n sep cs
      else (case split_max (Suc n) sep cs of
              [] \<Rightarrow> [[c]]
            | p # ps \<Rightarrow> (c # p) # ps))"

definition rsplit :: "string \<Rightarrow> char \<Rightarrow> nat \<Rightarrow> string list" where
  "rsplit s sep n = rev (map rev (split_max n sep (rev s)))"

definition digit_char :: "nat \<Rightarrow> char" where
  "digit_char d = ''0123456789'' ! d"

fun str_nat :: "nat \<Rightarrow> string" where
  "str_nat n = (if n < 10 then [digit_char n] else str_nat (n div 10) @ [digit_char (n mod 10)])"

declare str_nat.simps [simp del]

definition str_int :: "int \<Rightarrow> string" where
  "str_int i = (if i < 0 then ''-'' @ str_nat (nat (- i)) else str_nat (nat i))"

text \<open>The format specification \<^verbatim>\<open>{:+}\<close>: the sign is always written.\<close>

definition fmt_plus :: "int \<Rightarrow> string" where
  "fmt_plus i = (if i < 0 then ''-'' @ str_nat (nat (- i)) else ''+'' @ str_nat (nat i))"

definition digit_val :: "char \<Rightarrow> nat" where
  "digit_val c = (case map_of (zip ''0123456789'' [0, 1, 2, 3, 4, 5, 6, 7, 8, 9]) c of
                    Some d \<Rightarrow> d | None \<Rightarrow> 0)"

definition digits_val :: "string \<Rightarrow> nat" where
  "digits_val ds = foldl (\<lambda>acc c. 10 * acc + digit_val c) 0 ds"

text \<open>
  \<^verbatim>\<open>int(s)\<close> on ASCII text: surrounding whitespace is dropped, one sign is allowed, and
  single underscores may separate digits. Anything else raises \<^verbatim>\<open>ValueError\<close>, here
  \<open>None\<close>.
\<close>

fun digit_groups_ok :: "bool \<Rightarrow> string \<Rightarrow> bool" where
  "digit_groups_ok after_digit [] = after_digit"
| "digit_groups_ok after_digit (c # cs) =
     (if is_digit c then digit_groups_ok True cs
      else if c = CHR ''_'' \<and> after_digit then digit_groups_ok False cs
      else False)"

definition py_int :: "string \<Rightarrow> int option" where
  "py_int s =
     (let t = str_strip s;
          (neg, body) = (case t of
                           [] \<Rightarrow> (False, [])
                         | c # cs \<Rightarrow> if c = CHR ''-'' then (True, cs)
                                     else if c = CHR ''+'' then (False, cs)
                                     else (False, c # cs))
      in if digit_groups_ok False body
         then (let v = int (digits_val (filter is_digit body)) in Some (if neg then - v else v))
         else None)"

text \<open>\<^verbatim>\<open>re.search(r'\d+', s)\<close>: the first maximal run of digits, if there is one.\<close>

definition search_digits :: "string \<Rightarrow> string option" where
  "search_digits s =
     (case dropWhile (\<lambda>c. \<not> is_digit c) s of
        [] \<Rightarrow> None
      | c # cs \<Rightarrow> Some (takeWhile is_digit (c # cs)))"

text \<open>
  A Python \<^verbatim>\<open>dict\<close> keeps insertion order, so it is an association list; \<^verbatim>\<open>d.get(k)\<close>
  is \<open>map_of d k\<close>, \<^verbatim>\<open>d[k] = v\<close> is \<open>AList.update k v d\<close> (replace in place, or append).
\<close>

definition dict_get :: "('k \<times> 'v) list \<Rightarrow> 'k \<Rightarrow> 'v \<Rightarrow> 'v" where
  "dict_get d k dflt = (case map_of d k of Some v \<Rightarrow> v | None \<Rightarrow> dflt)"

definition dict_has :: "('k \<times> 'v) list \<Rightarrow> 'k \<Rightarrow> bool" where
  "dict_has d k = (map_of d k \<noteq> None)"

text \<open>
  The random source is a list of raw draws, continued by zeros once it is used up.
  \<^verbatim>\<open>random.randint(a, b)\<close> takes the next draw and returns a value between \<open>a\<close> and
  \<open>b\<close>, both included; every value in that range comes from some draw.
\<close>

definition draw :: "nat list \<Rightarrow> nat \<times> nat list" where
  "draw rng = (case rng of [] \<Rightarrow> (0, []) | r # rs \<Rightarrow> (r, rs))"

definition randint :: "int \<Rightarrow> int \<Rightarrow> nat list \<Rightarrow> int \<times> nat list" where
  "randint a b rng = (let (r, rest) = draw rng in (a + int (r mod nat (b - a + 1)), rest))"

definition apostrophe :: string where
  "apostrophe = [CHR 0x27]"

definition newline :: string where
  "newline = [CHR 0x0A]"

section \<open>The data model (models/schemas.py)\<close>

record Item =
  itm_name :: string
  itm_description :: "string option"
  itm_category :: string

record Effect =
  eff_name :: string
  eff_description :: string
  duration_turns :: int
  modifiers :: "(string \<times> int) list"

record QuestRewards =
  rw_xp :: int
  rw_currency :: int
  rw_items :: "Item list"

record Quest =
  quest_id :: string
  title :: string
  qst_description :: string
  objectives :: "string list"
  rewards :: QuestRewards
  status :: string

record Entity =
  ent_name :: string
  ent_description :: string
  ent_health :: int
  ent_stats :: "(string \<times> int) list"
  is_hostile :: bool
  abilities :: "string list"

record SceneEntity = Entity +
  instance_id :: string

record SceneContext =
  location_name :: string
  scn_description :: string
  entities :: "SceneEntity list"

record PlayerCharacter =
  character_id :: string
  pc_name :: string
  age :: int
  gender :: string
  backstory :: string
  character_class :: string
  level :: int
  xp :: int
  stats :: "(string \<times> int) list"
  skills :: "string list"
  conditions :: "Effect list"
  health :: int
  max_health :: int
  inventory :: "Item list"
  currency :: int

record ClassOption =
  cls_name :: string
  cls_description :: string
  positive_attribute :: string
  starting_weapon :: string
  starting_currency :: int
  starting_object :: string
  base_stats :: "(string \<times> int) list"
  initial_abilities :: "string list"

text \<open>The secret plot is an untyped \<^verbatim>\<open>Dict\<close>; the worker reads two of its keys.\<close>

record MainPlot =
  synopsis :: "string option"
  key_milestones :: "string list option"

record WorldOption =
  wld_name :: string
  wld_description :: string
  main_plot_hook :: string
  wld_main_plot :: MainPlot
  initial_bestiary :: "Entity list"

record PendingAction =
  acting_character_id :: string
  action_text :: string
  stat_name :: string
  modifier :: int
  dc :: int
  dice_roll :: int
  is_success :: bool

record GameState =
  session_id :: string
  game_id :: string
  game_phase :: string
  world :: "WorldOption option"
  players :: "(string \<times> PlayerCharacter) list"
  party_inventory :: "Item list"
  party_currency :: int
  scene_context :: SceneContext
  quest_log :: "Quest list"
  story_summary :: string
  previous_turn_narrative :: "string option"
  main_plot :: "MainPlot option"
  bestiary :: "(string \<times> Entity) list"
  current_turn_entity_id :: "string option"
  initiative_order :: "string list"
  pending_action :: "PendingAction option"
  world_selection_options :: "WorldOption list option"
  class_selection_options :: "ClassOption list option"
  num_players_to_create :: int
  characters_created :: int
  pending_character_class :: "ClassOption option"

record PlayerIntent =
  intent_type :: string
  action_description :: string
  item_name :: "string option"
  is_acquisition :: bool
  target :: "string option"
  relevant_stat :: "string option"
  required_dc :: "int option"

record GMWorldCreationResponse =
  wcr_narrative :: string
  world_options :: "WorldOption list"
  wcr_updated_summary :: string

record GMClassCreationResponse =
  ccr_narrative :: string
  class_options :: "ClassOption list"

record GMTurnResponse =
  narrative :: string
  image_prompt :: string
  updated_summary :: string
  updated_scene_context :: SceneContext
  updated_quest_log :: "Quest list"

abbreviation NEW_GAME :: string where "NEW_GAME \<equiv> ''NEW_GAME''"
abbreviation WORLD_SELECTION :: string where "WORLD_SELECTION \<equiv> ''WORLD_SELECTION''"
abbreviation GAME_IN_PROGRESS :: string where "GAME_IN_PROGRESS \<equiv> ''GAME_IN_PROGRESS''"
abbreviation IN_COMBAT :: string where "IN_COMBAT \<equiv> ''IN_COMBAT''"
abbreviation AWAITING_DICE_ROLL_CONFIRMATION :: string where
  "AWAITING_DICE_ROLL_CONFIRMATION \<equiv> ''AWAITING_DICE_ROLL_CONFIRMATION''"

section \<open>The rules engine (services/gameplay_rules.py)\<close>

subsection \<open>initiate_combat\<close>

datatype combatant = PlayerC PlayerCharacter | EntityC SceneEntity

fun combatant_stats :: "combatant \<Rightarrow> (string \<times> int) list" where
  "combatant_stats (PlayerC p) = stats p"
| "combatant_stats (EntityC e) = ent_stats e"

text \<open>\<^verbatim>\<open>getattr(combatant, 'character_id', getattr(combatant, 'instance_id', None))\<close>\<close>

fun combatant_id :: "combatant \<Rightarrow> string" where
  "combatant_id (PlayerC p) = character_id p"
| "combatant_id (EntityC e) = instance_id e"

definition combatants :: "GameState \<Rightarrow> combatant list" where
  "combatants gs =
     map (\<lambda>kv. PlayerC (snd kv)) (players gs) @
     map EntityC (filter is_hostile (entities (scene_context gs)))"

definition dex_modifier :: "combatant \<Rightarrow> int" where
  "dex_modifier c = (dict_get (combatant_stats c) ''dexterity'' 10 - 10) div 2"

text \<open>The loop that fills \<^verbatim>\<open>initiative_rolls\<close>: one draw for each combatant, and a
  combatant whose id is empty is left out.\<close>

fun initiative_rolls :: "combatant list \<Rightarrow> nat list \<Rightarrow> (string \<times> int) list" where
  "initiative_rolls [] rng = []"
| "initiative_rolls (c # cs) rng =
     (let (d, rng') = randint 1 20 rng;
          roll = d + dex_modifier c;
          entity_id = combatant_id c
      in (if entity_id \<noteq> [] then [(entity_id, roll)] else []) @ initiative_rolls cs rng')"

text \<open>\<^verbatim>\<open>list.sort(key=lambda x: x[1], reverse=True)\<close> is stable: it is the insertion sort
  on the negated roll.\<close>

definition sort_rolls :: "(string \<times> int) list \<Rightarrow> (string \<times> int) list" where
  "sort_rolls rolls = sort_key (\<lambda>x. - snd x) rolls"

definition initiate_combat :: "GameState \<Rightarrow> nat list \<Rightarrow> GameState" where
  "initiate_combat game_state rng =
     (let gs1 = game_state\<lparr>game_phase := IN_COMBAT\<rparr>;
          rolls = sort_rolls (initiative_rolls (combatants gs1) rng);
          gs2 = gs1\<lparr>initiative_order := map fst rolls\<rparr>
      in (case initiative_order gs2 of
            [] \<Rightarrow> gs2
          | first # _ \<Rightarrow> gs2\<lparr>current_turn_entity_id := Some first\<rparr>))"

subsection \<open>Effects and skill checks\<close>

text \<open>One round of the loop of \<^verbatim>\<open>_apply_effects\<close>: a modifier counts when it is there
  and is not zero.\<close>

definition effect_step :: "string option \<Rightarrow> Effect \<Rightarrow> int \<Rightarrow> int" where
  "effect_step rel_stat effect total_modifier =
     (let t1 = (case rel_stat of
                  None \<Rightarrow> total_modifier
                | Some s \<Rightarrow>
                    if s \<noteq> [] \<and> dict_has (modifiers effect) s \<and> dict_get (modifiers effect) s 0 \<noteq> 0
                    then total_modifier + dict_get (modifiers effect) s 0
                    else total_modifier)
      in if dict_has (modifiers effect) ''all'' \<and> dict_get (modifiers effect) ''all'' 0 \<noteq> 0
         then t1 + dict_get (modifiers effect) ''all'' 0
         else t1)"

definition apply_effects :: "PlayerCharacter \<Rightarrow> string option \<Rightarrow> int" where
  "apply_effects acting_player rel_stat =
     fold (effect_step rel_stat) (conditions acting_player) 0"

definition resolve_dc :: "PlayerIntent \<Rightarrow> int" where
  "resolve_dc intent = (case required_dc intent of
                          None \<Rightarrow> 12
                        | Some d \<Rightarrow> if d \<noteq> 0 then d else 12)"

definition resolve_stat_name :: "PlayerIntent \<Rightarrow> PlayerCharacter \<Rightarrow> string" where
  "resolve_stat_name intent acting_player =
     (case relevant_stat intent of
        None \<Rightarrow> ''dexterity''
      | Some s \<Rightarrow> if s \<noteq> [] \<and> dict_has (stats acting_player) (str_lower s)
                  then str_lower s else ''dexterity'')"

definition challenge_text :: "string \<Rightarrow> string \<Rightarrow> int \<Rightarrow> int \<Rightarrow> string" where
  "challenge_text description stat d total_modifier =
     ''You prepare to '' @ apostrophe @ description @ apostrophe @ ''. '' @
     ''This will require a '' @ str_title stat @
     '' check against a Difficulty Class (DC) of '' @ str_int d @ ''. '' @
     ''(Your character'' @ apostrophe @ ''s total modifier for this is '' @
     fmt_plus total_modifier @ '').''"

definition handle_skill_check_intent ::
    "PlayerIntent \<Rightarrow> GameState \<Rightarrow> PlayerCharacter \<Rightarrow> nat list \<Rightarrow> GameState \<times> string" where
  "handle_skill_check_intent intent game_state acting_player rng =
     (let d = resolve_dc intent;
          stat = resolve_stat_name intent acting_player;
          stat_value = dict_get (stats acting_player) stat 10;
          stat_modifier = (stat_value - 10) div 2;
          effect_modifier = apply_effects acting_player (Some stat);
          total_modifier = stat_modifier + effect_modifier;
          (roll, rng') = randint 1 20 rng;
          total_roll = roll + total_modifier;
          success = (d \<le> total_roll);
          gs1 = game_state\<lparr>game_phase := AWAITING_DICE_ROLL_CONFIRMATION\<rparr>;
          gs2 = gs1\<lparr>pending_action := Some \<lparr>
                  acting_character_id = character_id acting_player,
                  action_text = action_description intent,
                  stat_name = stat,
                  modifier = total_modifier,
                  dc = d,
                  dice_roll = roll,
                  is_success = success\<rparr>\<rparr>
      in (gs2, challenge_text (action_description intent) stat d total_modifier))"

subsection \<open>Inventory and attack handlers\<close>

text \<open>
  \<^verbatim>\<open>acting_player\<close> is a reference. On the player path it is the object stored in
  \<^verbatim>\<open>game_state.players\<close> under the key \<open>home\<close>, so a change to it is a change to the
  game state; on the NPC path it is a fresh object (\<open>home = None\<close>) and the change is lost.
\<close>

definition store_actor :: "string option \<Rightarrow> PlayerCharacter \<Rightarrow> GameState \<Rightarrow> GameState" where
  "store_actor home p game_state =
     (case home of
        None \<Rightarrow> game_state
      | Some k \<Rightarrow> game_state\<lparr>players := AList.update k p (players game_state)\<rparr>)"

definition INCOHERENT_ITEM_KEYWORDS :: "string list" where
  "INCOHERENT_ITEM_KEYWORDS = [''laser'', ''pistol'', ''spaceship'', ''computer'', ''phone'', ''gun'']"

definition handle_inventory_intent ::
    "PlayerIntent \<Rightarrow> GameState \<Rightarrow> PlayerCharacter \<Rightarrow> string option \<Rightarrow> GameState \<times> string" where
  "handle_inventory_intent intent game_state acting_player home =
     (case item_name intent of
        None \<Rightarrow> (game_state, ''The player specified no item.'')
      | Some raw_name \<Rightarrow>
          if raw_name = [] then (game_state, ''The player specified no item.'')
          else
            (let nm = str_title raw_name in
             if is_acquisition intent then
               (if list_ex (\<lambda>keyword. str_contains (str_lower nm) keyword) INCOHERENT_ITEM_KEYWORDS
                then (game_state,
                      ''The player'' @ apostrophe @ ''s attempt to find a '' @ apostrophe @ nm @ apostrophe @
                      '' failed because such an object is entirely foreign to this world.'')
                else if \<not> list_ex (\<lambda>item. str_lower (itm_name item) = str_lower nm)
                              (inventory acting_player)
                then (store_actor home
                        (acting_player\<lparr>inventory := inventory acting_player @
                           [\<lparr>itm_name = nm, itm_description = Some ''A newly found item.'',
                             itm_category = ''misc''\<rparr>]\<rparr>) game_state,
                      ''The player successfully acquired the '' @ apostrophe @ nm @ apostrophe @ ''.'')
                else (game_state,
                      ''The player already has a '' @ apostrophe @ nm @ apostrophe @ ''.''))
             else
               (case find (\<lambda>item. str_lower (itm_name item) = str_lower nm) (inventory acting_player) of
                  Some item_to_remove \<Rightarrow>
                    (store_actor home
                       (acting_player\<lparr>inventory := remove1 item_to_remove (inventory acting_player)\<rparr>)
                       game_state,
                     ''The player has used or discarded the '' @ apostrophe @ nm @ apostrophe @ ''.'')
                | None \<Rightarrow>
                    (game_state,
                     ''The player tried to use a '' @ apostrophe @ nm @ apostrophe @
                     '', but they don'' @ apostrophe @ ''t have one.''))))"

fun update_first :: "('a \<Rightarrow> bool) \<Rightarrow> ('a \<Rightarrow> 'a) \<Rightarrow> 'a list \<Rightarrow> 'a list" where
  "update_first P f [] = []"
| "update_first P f (x # xs) = (if P x then f x # xs else x # update_first P f xs)"

definition find_target :: "GameState \<Rightarrow> string \<Rightarrow> SceneEntity option" where
  "find_target game_state target_name =
     find (\<lambda>e. str_lower (ent_name e) = str_lower target_name) (entities (scene_context game_state))"

definition handle_attack_intent ::
    "PlayerIntent \<Rightarrow> GameState \<Rightarrow> PlayerCharacter \<Rightarrow> nat list \<Rightarrow> GameState \<times> string" where
  "handle_attack_intent intent game_state acting_player rng =
     (case target intent of
        None \<Rightarrow> (game_state, ''The player wanted to attack, but did not specify a target.'')
      | Some target_name \<Rightarrow>
          if target_name = []
          then (game_state, ''The player wanted to attack, but did not specify a target.'')
          else
            (case find_target game_state target_name of
               None \<Rightarrow>
                 (game_state,
                  ''The player tried to attack '' @ apostrophe @ target_name @ apostrophe @
                  '', but there is no such target.'')
             | Some target_entity \<Rightarrow>
                 if \<not> is_hostile target_entity
                 then (game_state,
                       ''The player attacks '' @ apostrophe @ target_name @ apostrophe @
                       '', but they are not hostile.'')
                 else
                   (let (d6, rng') = randint 1 6 rng;
                        damage = dict_get (stats acting_player) ''strength'' 10 div 2 + d6;
                        new_health = ent_health target_entity - damage;
                        scene = scene_context game_state;
                        gs1 = game_state\<lparr>scene_context := scene\<lparr>entities :=
                                update_first
                                  (\<lambda>e. str_lower (ent_name e) = str_lower target_name)
                                  (\<lambda>e. e\<lparr>ent_health := ent_health e - damage\<rparr>)
                                  (entities scene)\<rparr>\<rparr>
                    in if new_health \<le> 0
                       then (gs1, ''With a final blow, the player defeats '' @
                                  ent_name target_entity @ ''!'')
                       else (gs1, ''The player attacks '' @ ent_name target_entity @
                                  '', dealing '' @ str_int damage @ '' damage. It has '' @
                                  str_int new_health @ '' health remaining.''))))"

subsection \<open>process_turn_events\<close>

definition remaining_hostiles :: "GameState \<Rightarrow> bool" where
  "remaining_hostiles game_state =
     list_ex (\<lambda>e. is_hostile e \<and> 0 < ent_health e) (entities (scene_context game_state))"

fun str_join :: "string \<Rightarrow> string list \<Rightarrow> string" where
  "str_join sep [] = []"
| "str_join sep [x] = x"
| "str_join sep (x # y # ys) = x @ sep @ str_join sep (y # ys)"

definition combat_begins_message :: string where
  "combat_begins_message = ''Combat begins! The air crackles with tension as initiative is rolled.''"

definition combat_ended_message :: string where
  "combat_ended_message = newline @ newline @ ''**Combat has ended!**''"

text \<open>Step 1 of the pipeline: an attack outside combat on a hostile entity of the scene.\<close>

definition starts_combat :: "PlayerIntent \<Rightarrow> GameState \<Rightarrow> bool" where
  "starts_combat intent game_state =
     (intent_type intent = ''ATTACK'' \<and> game_phase game_state \<noteq> IN_COMBAT \<and>
      (case target intent of
         None \<Rightarrow> False
       | Some target_name \<Rightarrow>
           target_name \<noteq> [] \<and>
           (case find_target game_state target_name of
              None \<Rightarrow> False
            | Some target_entity \<Rightarrow> is_hostile target_entity)))"

text \<open>Step 4: the end of combat, checked only while the phase is still \<open>IN_COMBAT\<close>.\<close>

definition check_combat_end ::
    "PlayerCharacter \<Rightarrow> GameState \<times> string list \<Rightarrow> GameState \<times> string list" where
  "check_combat_end acting_player r =
     (let (game_state, all_outcomes) = r in
      if game_phase game_state = IN_COMBAT \<and> \<not> remaining_hostiles game_state
      then (game_state\<lparr>game_phase := GAME_IN_PROGRESS,
                       initiative_order := [],
                       current_turn_entity_id := Some (character_id acting_player)\<rparr>,
            all_outcomes @ [combat_ended_message])
      else (game_state, all_outcomes))"

definition process_turn_events ::
    "PlayerIntent \<Rightarrow> GameState \<Rightarrow> PlayerCharacter \<Rightarrow> string option \<Rightarrow> nat list
       \<Rightarrow> GameState \<times> string \<times> bool" where
  "process_turn_events intent game_state acting_player home rng =
     (if starts_combat intent game_state
      then (initiate_combat game_state rng, combat_begins_message, False)
      else
        (let (d100, rng1) = randint 1 100 rng;
             is_danger = (d100 \<le> 5 \<and> intent_type intent \<notin> set [''OBSERVE'', ''SOCIAL'']);
             (gs1, action_outcome) =
               (if intent_type intent = ''MANAGE_INVENTORY''
                then handle_inventory_intent intent game_state acting_player home
                else if intent_type intent = ''SKILL_CHECK''
                then handle_skill_check_intent intent game_state acting_player rng1
                else if intent_type intent = ''ATTACK''
                then handle_attack_intent intent game_state acting_player rng1
                else (game_state,
                      ''The player takes a moment to interact with their surroundings.''));
             (gs2, all_outcomes) = check_combat_end acting_player (gs1, [action_outcome])
         in (gs2, str_join '' '' (filter (\<lambda>s. s \<noteq> []) all_outcomes), is_danger)))"

section \<open>The phase handlers (tasks/game_logic.py)\<close>

text \<open>
  The narrator, the intent classifier and the validation of model objects are outside the
  worker. One task execution sees them through an environment: each call either answers
  or raises. The prompts themselves are not modelled, only the places where building one
  raises. \<open>env_new_character_id\<close> is the id that the default factory of
  \<^verbatim>\<open>PlayerCharacter\<close> makes up.
\<close>

datatype py_exn =
  ValueError | IndexError | AttributeError | TypeError | StopIteration | ServiceError

datatype 'a reply = Reply 'a | Raises py_exn

record env =
  env_rng :: "nat list"
  env_choice_reply :: "string reply"
  env_worlds_reply :: "GMWorldCreationResponse reply"
  env_classes_reply :: "GMClassCreationResponse reply"
  env_intent_reply :: "PlayerIntent reply"
  env_turn_reply :: "GMTurnResponse reply"
  env_npc_intent_reply :: "PlayerIntent reply"
  env_npc_actor_reply :: "PlayerCharacter reply"
  env_new_character_id :: string

record result_payload =
  event_type :: string
  rp_narrative :: string
  new_game_state :: "GameState option"
  rp_world_options :: "WorldOption list option"
  rp_class_options :: "ClassOption list option"
  prompt_user_for :: "string option"
  rp_image_prompt :: "string option"

definition event :: "string \<Rightarrow> string \<Rightarrow> result_payload" where
  "event ty text = \<lparr>event_type = ty, rp_narrative = text, new_game_state = None,
                     rp_world_options = None, rp_class_options = None,
                     prompt_user_for = None, rp_image_prompt = None\<rparr>"

type_synonym handled = "py_exn + GameState \<times> result_payload"

subsection \<open>Choices in free text\<close>

definition choice_in_text :: "string \<Rightarrow> int \<Rightarrow> int option" where
  "choice_in_text text num_options =
     (case search_digits text of
        None \<Rightarrow> None
      | Some ds \<Rightarrow> (let choice = int (digits_val ds)
                   in if 1 \<le> choice \<and> choice \<le> num_options then Some choice else None))"

definition get_natural_language_choice :: "string reply \<Rightarrow> string \<Rightarrow> int \<Rightarrow> int" where
  "get_natural_language_choice gemini_reply text num_options =
     (case (case gemini_reply of
              Reply response_text \<Rightarrow> choice_in_text response_text num_options
            | Raises _ \<Rightarrow> None) of
        Some choice \<Rightarrow> choice
      | None \<Rightarrow> (case choice_in_text text num_options of
                   Some choice \<Rightarrow> choice
                 | None \<Rightarrow> 0))"

definition classify_intent :: "PlayerIntent reply \<Rightarrow> PlayerIntent" where
  "classify_intent gemini_reply =
     (case gemini_reply of
        Reply player_intent \<Rightarrow> player_intent
      | Raises _ \<Rightarrow> \<lparr>intent_type = ''OBSERVE'', action_description = ''look around'',
                     item_name = None, is_acquisition = False, target = None,
                     relevant_stat = None, required_dc = None\<rparr>)"

subsection \<open>Setup phases\<close>

definition handle_start_new_game :: "GameState \<Rightarrow> env \<Rightarrow> handled" where
  "handle_start_new_game game_state e =
     (case env_worlds_reply e of
        Raises x \<Rightarrow> Inl x
      | Reply response \<Rightarrow>
          (let gs1 = game_state\<lparr>game_phase := WORLD_SELECTION,
                                world_selection_options := Some (world_options response),
                                story_summary := wcr_updated_summary response\<rparr>
           in Inr (gs1, (event ''WORLD_OPTIONS_PRESENTED'' (wcr_narrative response))
                          \<lparr>rp_world_options := Some (world_options response),
                           new_game_state := Some gs1\<rparr>)))"

definition options_list :: "'a list option \<Rightarrow> 'a list" where
  "options_list opts = (case opts of None \<Rightarrow> [] | Some l \<Rightarrow> l)"

definition options_count :: "'a list option \<Rightarrow> int" where
  "options_count opts = int (length (options_list opts))"

definition bestiary_of :: "Entity list \<Rightarrow> (string \<times> Entity) list" where
  "bestiary_of es = foldl (\<lambda>d entity. AList.update (ent_name entity) entity d) [] es"

definition handle_world_selection :: "GameState \<Rightarrow> string \<Rightarrow> env \<Rightarrow> handled" where
  "handle_world_selection game_state text e =
     (let num_options = options_count (world_selection_options game_state);
          choice_index = get_natural_language_choice (env_choice_reply e) text num_options - 1
      in if 0 \<le> choice_index \<and> choice_index < num_options
         then
           (let selected_world = options_list (world_selection_options game_state) ! nat choice_index;
                gs1 = game_state\<lparr>world := Some selected_world,
                                 main_plot := Some (wld_main_plot selected_world),
                                 bestiary := bestiary_of (initial_bestiary selected_world),
                                 game_phase := ''CHARACTER_CREATION_NUM_PLAYERS''\<rparr>
            in Inr (gs1, (event ''STATE_UPDATE_PROMPT_USER''
                            (''You have chosen the world of '' @ wld_name selected_world @ ''. '' @
                             main_plot_hook selected_world @ newline @
                             ''How many adventurers will be embarking on this journey? (1-4)''))
                           \<lparr>prompt_user_for := Some ''number_of_players''\<rparr>))
         else Inr (game_state,
                   event ''ERROR'' (''Invalid choice. Please choose a number from 1 to '' @
                                    str_int num_options @ ''.'')))"

subsection \<open>Character creation\<close>

definition format_error :: result_payload where
  "format_error = event ''ERROR'' ''Invalid format. Please provide: Name, Age, Gender, Backstory.''"

definition new_character ::
    "string \<Rightarrow> string \<Rightarrow> int \<Rightarrow> string \<Rightarrow> string \<Rightarrow> ClassOption \<Rightarrow> PlayerCharacter" where
  "new_character cid nm years gnd story pending_class =
     \<lparr>character_id = cid, pc_name = nm, age = years, gender = gnd, backstory = story,
      character_class = cls_name pending_class, level = 1, xp = 0,
      stats = base_stats pending_class, skills = initial_abilities pending_class,
      conditions = [], health = 100, max_health = 100,
      inventory =
        [\<lparr>itm_name = starting_weapon pending_class,
          itm_description = Some ''A basic starting weapon.'', itm_category = ''weapon''\<rparr>,
         \<lparr>itm_name = starting_object pending_class,
          itm_description = Some ''A curious starting object.'', itm_category = ''misc''\<rparr>],
      currency = starting_currency pending_class\<rparr>"

text \<open>
  The last character is made: the game starts. Building the prompt of the opening scene
  reads \<^verbatim>\<open>world.name\<close> and \<^verbatim>\<open>main_plot.get(...)\<close>, and takes the first key milestone.
  This runs inside the \<^verbatim>\<open>try\<close> of the details branch, whose handler catches
  \<^verbatim>\<open>ValueError\<close> and \<^verbatim>\<open>IndexError\<close> only, and answers with the state as changed so far.
\<close>

definition first_item :: "'a list \<Rightarrow> 'a option" where
  "first_item xs = (case xs of [] \<Rightarrow> None | x # _ \<Rightarrow> Some x)"

definition start_adventure :: "GameState \<Rightarrow> env \<Rightarrow> handled" where
  "start_adventure game_state e =
     (let gs1 = game_state\<lparr>game_phase := GAME_IN_PROGRESS\<rparr>;
          gs2 = gs1\<lparr>current_turn_entity_id := map_option fst (first_item (players gs1))\<rparr>
      in if players gs1 = [] then Inl StopIteration
         else case world gs2 of
           None \<Rightarrow> Inl AttributeError
         | Some w \<Rightarrow>
             (case main_plot gs2 of
                None \<Rightarrow> Inl AttributeError
              | Some plot \<Rightarrow>
                  if key_milestones plot = Some []
                  then Inr (gs2, format_error)
                  else
                    (case env_turn_reply e of
                       Raises x \<Rightarrow>
                         if x = ValueError \<or> x = IndexError then Inr (gs2, format_error)
                         else Inl x
                     | Reply narrative_response \<Rightarrow>
                         (let gs3 = gs2\<lparr>story_summary := updated_summary narrative_response,
                                        scene_context := updated_scene_context narrative_response,
                                        quest_log := updated_quest_log narrative_response\<rparr>
                          in Inr (gs3, (event ''NARRATIVE_UPDATE'' (narrative narrative_response))
                                         \<lparr>rp_image_prompt := Some (image_prompt narrative_response),
                                          new_game_state := Some gs3\<rparr>)))))"

definition create_character :: "GameState \<Rightarrow> string \<Rightarrow> env \<Rightarrow> handled" where
  "create_character game_state text e =
     (let parts = rsplit text CHR '','' 3 in
      if length parts \<noteq> 4 then Inr (game_state, format_error)
      else
        (let nm = str_strip (parts ! 0);
             age_str = str_strip (parts ! 1);
             gnd = str_strip (parts ! 2);
             story = str_strip (parts ! 3)
         in case py_int age_str of
              None \<Rightarrow> Inr (game_state, format_error)
            | Some years \<Rightarrow>
                (case pending_character_class game_state of
                   None \<Rightarrow> Inl AttributeError
                 | Some pending_class \<Rightarrow>
                     (let new_char = new_character (env_new_character_id e) nm years gnd story
                                       pending_class;
                          gs1 = game_state\<lparr>players := AList.update (character_id new_char) new_char
                                                        (players game_state)\<rparr>;
                          gs2 = gs1\<lparr>characters_created := characters_created gs1 + 1\<rparr>;
                          gs3 = gs2\<lparr>pending_character_class := None\<rparr>
                      in if characters_created gs3 < num_players_to_create gs3
                         then
                           (case class_selection_options gs3 of
                              None \<Rightarrow> Inl TypeError
                            | Some opts \<Rightarrow>
                                Inr (gs3\<lparr>game_phase := ''CHARACTER_CREATION_CLASSES''\<rparr>,
                                     (event ''CLASS_OPTIONS_PRESENTED''
                                        (''Character '' @ apostrophe @ nm @ apostrophe @
                                         '' created! Now, create Player '' @
                                         str_int (characters_created gs3 + 1) @ ''.''))
                                       \<lparr>rp_class_options := Some opts\<rparr>))
                         else start_adventure gs3 e))))"

definition handle_character_creation :: "GameState \<Rightarrow> string \<Rightarrow> string \<Rightarrow> env \<Rightarrow> handled" where
  "handle_character_creation game_state client_id text e =
     (let sub_phase = game_phase game_state;
          player_num = characters_created game_state + 1
      in if sub_phase = ''CHARACTER_CREATION_NUM_PLAYERS'' then
           (let choice = get_natural_language_choice (env_choice_reply e) text 4 in
            if \<not> (1 \<le> choice \<and> choice \<le> 4)
            then Inr (game_state, event ''ERROR'' ''Please enter a number from 1 to 4.'')
            else
              (let gs1 = game_state\<lparr>num_players_to_create := choice,
                                    game_phase := ''CHARACTER_CREATION_CLASSES''\<rparr>
               in case world gs1 of
                    None \<Rightarrow> Inl AttributeError
                  | Some w \<Rightarrow>
                      (case env_classes_reply e of
                         Raises x \<Rightarrow> Inl x
                       | Reply response \<Rightarrow>
                           Inr (gs1\<lparr>class_selection_options := Some (class_options response)\<rparr>,
                                (event ''CLASS_OPTIONS_PRESENTED''
                                   (ccr_narrative response @ newline @
                                    ''Please choose a class for Player '' @ str_int player_num @ ''.''))
                                  \<lparr>rp_class_options := Some (class_options response)\<rparr>))))
         else if sub_phase = ''CHARACTER_CREATION_CLASSES'' then
           (let num_options = options_count (class_selection_options game_state);
                choice_index =
                  get_natural_language_choice (env_choice_reply e) text num_options - 1
            in if \<not> (0 \<le> choice_index \<and> choice_index < num_options)
               then Inr (game_state,
                         event ''ERROR'' (''Invalid choice. Please choose a number from 1 to '' @
                                          str_int num_options @ ''.''))
               else
                 (let chosen_class =
                        options_list (class_selection_options game_state) ! nat choice_index;
                      gs1 = game_state\<lparr>pending_character_class := Some chosen_class,
                                       game_phase := ''CHARACTER_CREATION_DETAILS''\<rparr>
                  in Inr (gs1, (event ''STATE_UPDATE_PROMPT_USER''
                                  (''Chosen '' @ apostrophe @ cls_name chosen_class @ apostrophe @
                                   '' for Player '' @ str_int player_num @ ''.'' @ newline @
                                   ''Please provide: Name, Age, Gender, Backstory (comma-separated).''))
                                 \<lparr>prompt_user_for :=
                                    Some (''details_for_player_'' @ str_int player_num)\<rparr>)))
         else if sub_phase = ''CHARACTER_CREATION_DETAILS'' then
           create_character game_state text e
         else Inr (game_state, event ''ERROR'' ''Unknown character creation state.''))"

subsection \<open>Turns\<close>

text \<open>
  \<^verbatim>\<open>_narrate_turn\<close>: the prompt reads \<^verbatim>\<open>game_state.world.name\<close> and
  \<^verbatim>\<open>acting_player.name\<close>, so a missing world or a missing actor raises; the answer of the
  narrator replaces the summary, the scene, the quest log and the previous narrative.
\<close>

definition narrate_turn :: "GameState \<Rightarrow> PlayerCharacter option \<Rightarrow> env \<Rightarrow> handled" where
  "narrate_turn game_state acting_player e =
     (case world game_state of
        None \<Rightarrow> Inl AttributeError
      | Some w \<Rightarrow>
          (case acting_player of
             None \<Rightarrow> Inl AttributeError
           | Some p \<Rightarrow>
               (case env_turn_reply e of
                  Raises x \<Rightarrow> Inl x
                | Reply narrative_response \<Rightarrow>
                    (let gs1 = game_state\<lparr>
                                 story_summary := updated_summary narrative_response,
                                 scene_context := updated_scene_context narrative_response,
                                 quest_log := updated_quest_log narrative_response,
                                 previous_turn_narrative := Some (narrative narrative_response)\<rparr>
                     in Inr (gs1, (event ''NARRATIVE_UPDATE'' (narrative narrative_response))
                                    \<lparr>new_game_state := Some gs1\<rparr>)))))"

definition handle_standard_turn :: "GameState \<Rightarrow> string \<Rightarrow> string \<Rightarrow> env \<Rightarrow> handled" where
  "handle_standard_turn game_state acting_char_id text e =
     (case map_of (players game_state) acting_char_id of
        None \<Rightarrow> Inr (game_state, event ''ERROR'' ''Acting player not found.'')
      | Some acting_player \<Rightarrow>
          (let player_intent = classify_intent (env_intent_reply e);
               (gs1, outcome_description, is_danger_event) =
                 process_turn_events player_intent game_state acting_player (Some acting_char_id)
                   (env_rng e)
           in if game_phase gs1 = AWAITING_DICE_ROLL_CONFIRMATION
              then Inr (gs1, (event ''DICE_ROLL_REQUESTED'' outcome_description)
                               \<lparr>new_game_state := Some gs1\<rparr>)
              else narrate_turn gs1 (Some acting_player) e))"

text \<open>Phase 2 of a skill check. The text of the outcome is built from the stored roll.\<close>

definition success_text :: "PendingAction \<Rightarrow> string" where
  "success_text pending =
     ''The dice roll is a '' @ str_int (dice_roll pending) @ ''! With your modifier of '' @
     fmt_plus (modifier pending) @ '', your total is '' @
     str_int (dice_roll pending + modifier pending) @ ''. '' @
     ''A success against the DC of '' @ str_int (dc pending) @ ''!''"

definition failure_text :: "PendingAction \<Rightarrow> int \<Rightarrow> string" where
  "failure_text pending damage =
     ''The dice roll is a '' @ str_int (dice_roll pending) @ ''. With your modifier of '' @
     fmt_plus (modifier pending) @ '', your total is '' @
     str_int (dice_roll pending + modifier pending) @ ''. '' @
     ''Unfortunately, that'' @ apostrophe @ ''s not enough to beat the DC of '' @
     str_int (dc pending) @ ''. You fail and take '' @ str_int damage @ '' damage.''"

text \<open>The first half: the state after the reveal and the outcome handed to the narrator.\<close>

definition reveal_pending ::
    "GameState \<Rightarrow> PendingAction \<Rightarrow> nat list \<Rightarrow> py_exn + GameState \<times> string" where
  "reveal_pending game_state pending rng =
     (let acting_player = map_of (players game_state) (acting_character_id pending) in
      if is_success pending
      then Inr (game_state\<lparr>pending_action := None, game_phase := GAME_IN_PROGRESS\<rparr>,
                success_text pending)
      else
        (let (damage, rng') = randint 1 4 rng in
         case acting_player of
           None \<Rightarrow> Inl AttributeError
         | Some p \<Rightarrow>
             Inr ((store_actor (Some (acting_character_id pending))
                     (p\<lparr>health := health p - damage\<rparr>) game_state)
                    \<lparr>pending_action := None, game_phase := GAME_IN_PROGRESS\<rparr>,
                  failure_text pending damage)))"

definition handle_dice_roll_confirmation :: "GameState \<Rightarrow> env \<Rightarrow> handled" where
  "handle_dice_roll_confirmation game_state e =
     (case pending_action game_state of
        None \<Rightarrow> Inr (game_state, event ''ERROR'' ''No skill check was pending for confirmation.'')
      | Some pending \<Rightarrow>
          (case reveal_pending game_state pending (env_rng e) of
             Inl x \<Rightarrow> Inl x
           | Inr (gs1, outcome_description) \<Rightarrow>
               narrate_turn gs1 (map_of (players gs1) (acting_character_id pending)) e))"

subsection \<open>Turn order in combat and NPC turns\<close>

fun index_of :: "'a \<Rightarrow> 'a list \<Rightarrow> nat option" where
  "index_of x [] = None"
| "index_of x (y # ys) = (if x = y then Some 0 else map_option Suc (index_of x ys))"

definition is_npc :: "GameState \<Rightarrow> string option \<Rightarrow> bool" where
  "is_npc game_state entity_id =
     (case entity_id of None \<Rightarrow> True | Some i \<Rightarrow> \<not> dict_has (players game_state) i)"

definition current_index :: "GameState \<Rightarrow> nat option" where
  "current_index game_state =
     (case current_turn_entity_id game_state of
        None \<Rightarrow> None
      | Some current_turn_id \<Rightarrow> index_of current_turn_id (initiative_order game_state))"

definition advance_turn_in_combat :: "GameState \<Rightarrow> GameState \<times> bool" where
  "advance_turn_in_combat game_state =
     (let order = initiative_order game_state in
      case current_index game_state of
        Some i \<Rightarrow>
          (let next_entity_id = order ! ((i + 1) mod length order);
               gs1 = game_state\<lparr>current_turn_entity_id := Some next_entity_id\<rparr>
           in (gs1, is_npc gs1 (Some next_entity_id)))
      | None \<Rightarrow>
          (case order of
             [] \<Rightarrow> (game_state, False)
           | first_entity_id # _ \<Rightarrow>
               (let gs1 = game_state\<lparr>current_turn_entity_id := Some first_entity_id\<rparr>
                in (gs1, is_npc gs1 (Some first_entity_id)))))"

text \<open>
  \<^verbatim>\<open>_handle_npc_turn\<close>. Inside its \<^verbatim>\<open>try\<close> the narrator chooses the intent of the NPC
  and \<^verbatim>\<open>PlayerCharacter(**npc_entity.model_dump())\<close> builds the acting character; either may
  raise, and then the NPC hesitates. The outcome of that validation is part of the
  environment. \<^verbatim>\<open>PlayerCharacter\<close> requires \<^verbatim>\<open>age\<close>, \<^verbatim>\<open>gender\<close>, \<^verbatim>\<open>backstory\<close> and
  \<^verbatim>\<open>character_class\<close>, which the dump of a scene entity does not have, so with these
  schemas the validation raises.
\<close>

definition find_npc :: "GameState \<Rightarrow> string option \<Rightarrow> SceneEntity option" where
  "find_npc game_state npc_id =
     (case npc_id of
        None \<Rightarrow> None
      | Some i \<Rightarrow> find (\<lambda>e. instance_id e = i) (entities (scene_context game_state)))"

definition handle_npc_turn :: "GameState \<Rightarrow> string option \<Rightarrow> env \<Rightarrow> GameState \<times> string" where
  "handle_npc_turn game_state npc_id e =
     (case find_npc game_state npc_id of
        None \<Rightarrow> (game_state, (case npc_id of None \<Rightarrow> ''None'' | Some i \<Rightarrow> i) @ '' cannot act.'')
      | Some npc_entity \<Rightarrow>
          if ent_health npc_entity \<le> 0
          then (game_state, ent_name npc_entity @ '' cannot act.'')
          else if \<not> list_ex (\<lambda>kv. 0 < health (snd kv)) (players game_state)
          then (game_state, ''There are no conscious players to target.'')
          else
            (case env_npc_intent_reply e of
               Raises _ \<Rightarrow> (game_state, ent_name npc_entity @ '' hesitates, unsure of what to do.'')
             | Reply npc_intent \<Rightarrow>
                 (case env_npc_actor_reply e of
                    Raises _ \<Rightarrow>
                      (game_state, ent_name npc_entity @ '' hesitates, unsure of what to do.'')
                  | Reply npc_as_actor \<Rightarrow>
                      (let (gs1, outcome_description, _) =
                             process_turn_events npc_intent game_state npc_as_actor None (env_rng e)
                       in (gs1, outcome_description)))))"

section \<open>The two tasks\<close>

text \<open>
  The worker imports \<^verbatim>\<open>update_game_state_in_db\<close> and \<^verbatim>\<open>crud.get_session_by_id\<close> from
  its own services package; they are read here from the copies kept by the API service
  (\<^verbatim>\<open>services/database_service.py\<close>, \<^verbatim>\<open>services/crud.py\<close>).
  What a task can touch: the table of sessions (\<^verbatim>\<open>update_game_state_in_db\<close> is an
  \<^verbatim>\<open>UPDATE ... WHERE session_id = ...\<close>, so it changes a row that exists and nothing
  else), the results pushed to \<^verbatim>\<open>gm_results\<close>, and the NPC-turn tasks handed to the
  queue with \<^verbatim>\<open>delay\<close>.
\<close>

record system =
  db :: "string \<Rightarrow> GameState option"
  published :: "(string \<times> result_payload) list"
  npc_tasks :: "(string \<times> string) list"

definition update_game_state_in_db :: "string \<Rightarrow> GameState \<Rightarrow> system \<Rightarrow> system" where
  "update_game_state_in_db sid new_state sys =
     (case db sys sid of
        None \<Rightarrow> sys
      | Some _ \<Rightarrow> sys\<lparr>db := (db sys)(sid \<mapsto> new_state)\<rparr>)"

definition publish_result_to_queue :: "string \<Rightarrow> result_payload \<Rightarrow> system \<Rightarrow> system" where
  "publish_result_to_queue client_id result sys =
     sys\<lparr>published := published sys @ [(client_id, result)]\<rparr>"

definition delay_npc_turn :: "string \<Rightarrow> string \<Rightarrow> system \<Rightarrow> system" where
  "delay_npc_turn sid client_id sys = sys\<lparr>npc_tasks := npc_tasks sys @ [(sid, client_id)]\<rparr>"

datatype task_status = StatusSuccess | StatusError string | Raised py_exn | Returned

subsection \<open>process_npc_turn_task\<close>

text \<open>The state that the task computes from the one it loads, and whether it asks for
  another NPC turn.\<close>

definition npc_turn_result :: "GameState \<Rightarrow> env \<Rightarrow> GameState \<times> string \<times> bool" where
  "npc_turn_result game_state e =
     (let npc_id = current_turn_entity_id game_state;
          (gs1, npc_outcome) = handle_npc_turn game_state npc_id e
      in if \<not> remaining_hostiles gs1
         then (gs1\<lparr>game_phase := GAME_IN_PROGRESS\<rparr>, npc_outcome @ combat_ended_message, False)
         else (let (gs2, is_next_turn_npc) = advance_turn_in_combat gs1
               in (gs2, npc_outcome, is_next_turn_npc)))"

definition process_npc_turn_task :: "string \<Rightarrow> string \<Rightarrow> env \<Rightarrow> system \<Rightarrow> task_status \<times> system" where
  "process_npc_turn_task sid client_id e sys =
     (case db sys sid of
        None \<Rightarrow> (Returned, sys)
      | Some game_state \<Rightarrow>
          (let (gs1, final_narrative, again) = npc_turn_result game_state e;
               sys1 = (if again then delay_npc_turn sid client_id sys else sys);
               result = (event ''NARRATIVE_UPDATE'' final_narrative)\<lparr>new_game_state := Some gs1\<rparr>;
               sys2 = update_game_state_in_db sid gs1 sys1
           in (Returned, publish_result_to_queue client_id result sys2)))"

subsection \<open>process_game_action_task\<close>

text \<open>
  The task message. \<open>p_action_type\<close> is \<^verbatim>\<open>client_action.action_type\<close> (\<^verbatim>\<open>"observe"\<close> when
  the key is missing); \<open>p_forced\<close> is \<^verbatim>\<open>client_action.payload\<close>: missing or empty, not a
  valid game state, or a game state.
\<close>

datatype forced_payload = NoPayload | InvalidPayload | StatePayload GameState

record payload =
  p_session_id :: string
  p_game_state :: GameState
  p_client_id :: string
  p_action_type :: string
  p_forced :: forced_payload
  p_language :: string

text \<open>The dispatcher proper: either the task returns at once, or a handler ran.\<close>

datatype dispatched = EarlyReturn task_status | Handled handled

definition first_player_id :: "GameState \<Rightarrow> string option" where
  "first_player_id game_state = map_option fst (first_item (players game_state))"

definition valid_player_turn :: "GameState \<Rightarrow> bool" where
  "valid_player_turn game_state =
     (case current_turn_entity_id game_state of
        None \<Rightarrow> False
      | Some acting_char_id \<Rightarrow> acting_char_id \<noteq> [] \<and> dict_has (players game_state) acting_char_id)"

definition not_a_valid_turn :: string where
  "not_a_valid_turn = ''Not a valid player'' @ apostrophe @ ''s turn''"

definition dispatch :: "payload \<Rightarrow> env \<Rightarrow> dispatched" where
  "dispatch p e =
     (let game_state = p_game_state p;
          initial_phase = game_phase game_state;
          text = p_action_type p
      in if initial_phase = NEW_GAME then Handled (handle_start_new_game game_state e)
         else if initial_phase = WORLD_SELECTION
         then Handled (handle_world_selection game_state text e)
         else if startswith initial_phase ''CHARACTER_CREATION''
         then Handled (handle_character_creation game_state (p_client_id p) text e)
         else if initial_phase = AWAITING_DICE_ROLL_CONFIRMATION
         then Handled (handle_dice_roll_confirmation game_state e)
         else if initial_phase = IN_COMBAT then
           (if \<not> valid_player_turn game_state
            then EarlyReturn (StatusError not_a_valid_turn)
            else (case current_turn_entity_id game_state of
                    None \<Rightarrow> EarlyReturn (StatusError not_a_valid_turn)
                  | Some acting_char_id \<Rightarrow>
                      Handled (handle_standard_turn game_state acting_char_id text e)))
         else if initial_phase = GAME_IN_PROGRESS then
           (if valid_player_turn game_state
            then (case current_turn_entity_id game_state of
                    None \<Rightarrow> EarlyReturn (StatusError ''Game is in progress but no players exist.'')
                  | Some acting_char_id \<Rightarrow>
                      Handled (handle_standard_turn game_state acting_char_id text e))
            else (case first_player_id game_state of
                    None \<Rightarrow> EarlyReturn (StatusError ''Game is in progress but no players exist.'')
                  | Some acting_char_id \<Rightarrow>
                      if acting_char_id = []
                      then EarlyReturn (StatusError ''Game is in progress but no players exist.'')
                      else Handled (handle_standard_turn
                                      (game_state\<lparr>current_turn_entity_id := Some acting_char_id\<rparr>)
                                      acting_char_id text e)))
         else Handled (Inr (game_state,
                            event ''ERROR'' (''Unhandled state '' @ apostrophe @ initial_phase @
                                             apostrophe @ ''.''))))"

text \<open>
  Step 5, after the state was saved and the result published. It reads
  \<^verbatim>\<open>game_state.current_turn_entity_id\<close>, and \<^verbatim>\<open>game_state\<close> is the object the handlers
  changed in place, that is the final state.
\<close>

definition post_turn :: "string \<Rightarrow> string \<Rightarrow> string \<Rightarrow> GameState \<Rightarrow> system \<Rightarrow> system" where
  "post_turn initial_phase sid client_id final_game_state sys =
     (if game_phase final_game_state = IN_COMBAT then
        (let (gs1, is_npc_turn) =
               (if initial_phase = IN_COMBAT then advance_turn_in_combat final_game_state
                else (final_game_state,
                      is_npc final_game_state (current_turn_entity_id final_game_state)))
         in if is_npc_turn
            then update_game_state_in_db sid gs1 (delay_npc_turn sid client_id sys)
            else sys)
      else if game_phase final_game_state = GAME_IN_PROGRESS then
        (let player_ids = map fst (players final_game_state) in
         case current_turn_entity_id final_game_state of
           None \<Rightarrow> sys
         | Some acting_char_id \<Rightarrow>
             (case index_of acting_char_id player_ids of
                None \<Rightarrow> sys
              | Some current_idx \<Rightarrow>
                  if 1 < length player_ids
                  then update_game_state_in_db sid
                         (final_game_state\<lparr>current_turn_entity_id :=
                            Some (player_ids ! ((current_idx + 1) mod length player_ids))\<rparr>) sys
                  else sys))
      else sys)"

definition force_game_state :: "payload \<Rightarrow> system \<Rightarrow> task_status \<times> system" where
  "force_game_state p sys =
     (case p_forced p of
        NoPayload \<Rightarrow> (StatusError ''FORCE_GAME_STATE requires a payload.'', sys)
      | InvalidPayload \<Rightarrow> (Raised ValueError, sys)
      | StatePayload forced_state_data \<Rightarrow>
          (let final_game_state = forced_state_data\<lparr>session_id := p_session_id p\<rparr>;
               sys1 = update_game_state_in_db (p_session_id p) final_game_state sys;
               result = (event ''STATE_FORCED'' ''State forced for testing.'')
                          \<lparr>new_game_state := Some final_game_state\<rparr>
           in (StatusSuccess, publish_result_to_queue (p_client_id p) result sys1)))"

definition process_game_action_task :: "payload \<Rightarrow> env \<Rightarrow> system \<Rightarrow> task_status \<times> system" where
  "process_game_action_task p e sys =
     (if p_action_type p = ''FORCE_GAME_STATE'' then force_game_state p sys
      else
        (case dispatch p e of
           EarlyReturn st \<Rightarrow> (st, sys)
         | Handled (Inl x) \<Rightarrow> (Raised x, sys)
         | Handled (Inr (final_game_state, result_payload)) \<Rightarrow>
             (let sys1 = update_game_state_in_db (p_session_id p) final_game_state sys;
                  result = (if new_game_state result_payload = None
                            then result_payload\<lparr>new_game_state := Some final_game_state\<rparr>
                            else result_payload);
                  sys2 = publish_result_to_queue (p_client_id p) result sys1
              in (StatusSuccess,
                  post_turn (game_phase (p_game_state p)) (p_session_id p) (p_client_id p)
                    final_game_state sys2))))"

section \<open>The websocket endpoint (api/endpoints.py)\<close>

text \<open>
  For each message of the client the endpoint of the API service reads the latest state of
  the session from the store and publishes a task that carries this state as its snapshot.
\<close>

definition websocket_task_payload ::
    "string \<Rightarrow> string \<Rightarrow> string \<Rightarrow> forced_payload \<Rightarrow> string \<Rightarrow> system \<Rightarrow> payload option" where
  "websocket_task_payload sid client_id action forced language sys =
     (case db sys sid of
        None \<Rightarrow> None
      | Some current_game_state \<Rightarrow>
          Some \<lparr>p_session_id = session_id current_game_state,
                p_game_state = current_game_state,
                p_client_id = client_id,
                p_action_type = action,
                p_forced = forced,
                p_language = language\<rparr>)"

section \<open>Example data\<close>

text \<open>A small session used to run the definitions: one player, one hostile goblin.\<close>

definition example_class :: ClassOption where
  "example_class = \<lparr>cls_name = ''Scholar'', cls_description = ''A seeker of lore.'',
     positive_attribute = ''Curious'', starting_weapon = ''Dagger'', starting_currency = 10,
     starting_object = ''Lantern'',
     base_stats = [(''strength'', 8), (''dexterity'', 13), (''wisdom'', 15)],
     initial_abilities = [''Lore'']\<rparr>"

definition example_world :: WorldOption where
  "example_world = \<lparr>wld_name = ''Eldoria'', wld_description = ''A land of mist.'',
     main_plot_hook = ''The old king is missing.'',
     wld_main_plot = \<lparr>synopsis = Some ''A usurper rises.'', key_milestones = Some [''Find the seal'']\<rparr>,
     initial_bestiary = []\<rparr>"

definition kara :: PlayerCharacter where
  "kara = new_character ''char_1'' ''Kara'' 29 ''female'' ''a wandering scholar'' example_class"

definition goblin :: SceneEntity where
  "goblin = \<lparr>ent_name = ''Goblin'', ent_description = ''A sly scout.'', ent_health = 7,
     ent_stats = [(''dexterity'', 14)], is_hostile = True, abilities = [],
     instance_id = ''ent_inst_1''\<rparr>"

definition example_state :: GameState where
  "example_state = \<lparr>session_id = ''s1'', game_id = ''g1'', game_phase = GAME_IN_PROGRESS,
     world = Some example_world, players = [(''char_1'', kara)],
     party_inventory = [], party_currency = 0,
     scene_context = \<lparr>location_name = ''Gate'', scn_description = ''A ruined gate.'',
                       entities = [goblin]\<rparr>,
     quest_log = [], story_summary = ''The story is just beginning.'',
     previous_turn_narrative = None, main_plot = Some (wld_main_plot example_world),
     bestiary = [], current_turn_entity_id = Some ''char_1'', initiative_order = [],
     pending_action = None, world_selection_options = None, class_selection_options = None,
     num_players_to_create = 1, characters_created = 1, pending_character_class = None\<rparr>"

definition example_system :: system where
  "example_system = \<lparr>db = [''s1'' \<mapsto> example_state], published = [], npc_tasks = []\<rparr>"

definition quiet_env :: env where
  "quiet_env = \<lparr>env_rng = [], env_choice_reply = Raises AttributeError,
     env_worlds_reply = Raises ServiceError, env_classes_reply = Raises ServiceError,
     env_intent_reply = Raises ServiceError, env_turn_reply = Raises ServiceError,
     env_npc_intent_reply = Raises ServiceError, env_npc_actor_reply = Raises ValueError,
     env_new_character_id = ''char_2''\<rparr>"

definition example_payload :: payload where
  "example_payload = \<lparr>p_session_id = ''s1'', p_game_state = example_state, p_client_id = ''kara'',
     p_action_type = ''observe'', p_forced = NoPayload, p_language = ''en''\<rparr>"

definition example_pending :: PendingAction where
  "example_pending = \<lparr>acting_character_id = ''char_1'', action_text = ''jump the chasm'',
     stat_name = ''dexterity'', modifier = 1, dc = 15, dice_roll = 3, is_success = False\<rparr>"

definition awaiting_state :: GameState where
  "awaiting_state = example_state\<lparr>game_phase := AWAITING_DICE_ROLL_CONFIRMATION,
     pending_action := Some example_pending\<rparr>"


definition example_narration :: GMTurnResponse where
  "example_narration = \<lparr>narrative = ''The wind howls.'', image_prompt = ''a ruined gate'',
     updated_summary = ''Kara stands at the gate.'',
     updated_scene_context = scene_context example_state, updated_quest_log = []\<rparr>"

definition narrator_env :: env where
  "narrator_env = quiet_env\<lparr>env_rng := [6], env_turn_reply := Reply example_narration\<rparr>"

definition awaiting_system :: system where
  "awaiting_system = \<lparr>db = [''s1'' \<mapsto> awaiting_state], published = [], npc_tasks = []\<rparr>"

definition awaiting_payload :: payload where
  "awaiting_payload = example_payload\<lparr>p_game_state := awaiting_state, p_action_type := ''look around''\<rparr>"

definition borin :: PlayerCharacter where
  "borin = new_character ''char_2'' ''Borin'' 41 ''male'' ''a retired smith'' example_class"

definition stale_snapshot :: GameState where
  "stale_snapshot = example_state\<lparr>players := [(''char_1'', kara), (''char_2'', borin)]\<rparr>"

definition newer_state :: GameState where
  "newer_state = stale_snapshot\<lparr>current_turn_entity_id := Some ''char_2'',
     story_summary := ''Kara has already acted.''\<rparr>"

definition stale_payload :: payload where
  "stale_payload = example_payload\<lparr>p_game_state := stale_snapshot, p_action_type := ''look around''\<rparr>"

definition newer_system :: system where
  "newer_system = \<lparr>db = [''s1'' \<mapsto> newer_state], published = [], npc_tasks = []\<rparr>"

definition npc_turn_state :: GameState where
  "npc_turn_state = example_state\<lparr>game_phase := IN_COMBAT,
     initiative_order := [''ent_inst_1'', ''char_1''],
     current_turn_entity_id := Some ''ent_inst_1''\<rparr>"

definition sneak_intent :: PlayerIntent where
  "sneak_intent = \<lparr>intent_type = ''SKILL_CHECK'', action_description = ''sneak past the guards'',
     item_name = None, is_acquisition = False, target = None,
     relevant_stat = Some ''Dexterity'', required_dc = Some 15\<rparr>"

definition blessed_kara :: PlayerCharacter where
  "blessed_kara = kara\<lparr>conditions :=
     [\<lparr>eff_name = ''Blessed'', eff_description = ''A minor blessing.'', duration_turns = 3,
       modifiers = [(''dexterity'', 2), (''all'', 1)]\<rparr>]\<rparr>"

definition climb_intent :: PlayerIntent where
  "climb_intent = \<lparr>intent_type = ''SKILL_CHECK'', action_description = ''climb the wall'',
     item_name = None, is_acquisition = False, target = None,
     relevant_stat = Some ''Strength'', required_dc = Some 15\<rparr>"

definition zero_dc_intent :: PlayerIntent where
  "zero_dc_intent = climb_intent\<lparr>required_dc := Some 0\<rparr>"




definition wolf :: SceneEntity where
  "wolf = \<lparr>ent_name = ''Wolf'', ent_description = ''A lean grey wolf.'', ent_health = 9,
     ent_stats = [(''dexterity'', 12)], is_hostile = True, abilities = [],
     instance_id = ''ent_inst_2''\<rparr>"

definition corrupt_state :: GameState where
  "corrupt_state = example_state\<lparr>game_phase := IN_COMBAT,
     scene_context := \<lparr>location_name = ''Gate'', scn_description = ''A ruined gate.'',
                        entities = [goblin, wolf]\<rparr>,
     initiative_order := [''ent_inst_1'', ''ent_inst_2''],
     current_turn_entity_id := Some ''ent_inst_1''\<rparr>"

definition corrupt_system :: system where
  "corrupt_system = \<lparr>db = [''s1'' \<mapsto> corrupt_state], published = [],
     npc_tasks = [(''s1'', ''kara'')]\<rparr>"

definition combat_state :: GameState where
  "combat_state = corrupt_state\<lparr>initiative_order := [''ent_inst_1'', ''ent_inst_2'', ''char_1'']\<rparr>"

definition combat_system :: system where
  "combat_system = \<lparr>db = [''s1'' \<mapsto> combat_state], published = [],
     npc_tasks = [(''s1'', ''kara'')]\<rparr>"

definition dead_goblin :: SceneEntity where
  "dead_goblin = goblin\<lparr>ent_health := 0\<rparr>"

definition dead_goblin_state :: GameState where
  "dead_goblin_state = example_state\<lparr>scene_context :=
     \<lparr>location_name = ''Gate'', scn_description = ''A ruined gate.'', entities = [dead_goblin]\<rparr>\<rparr>"

definition dead_goblin_system :: system where
  "dead_goblin_system = \<lparr>db = [''s1'' \<mapsto> dead_goblin_state], published = [], npc_tasks = []\<rparr>"

definition attack_intent :: PlayerIntent where
  "attack_intent = \<lparr>intent_type = ''ATTACK'', action_description = ''attack the goblin'',
     item_name = None, is_acquisition = False, target = Some ''goblin'',
     relevant_stat = None, required_dc = None\<rparr>"

definition attack_env :: env where
  "attack_env = quiet_env\<lparr>env_rng := [3, 18], env_intent_reply := Reply attack_intent,
     env_turn_reply := Reply (example_narration\<lparr>updated_scene_context :=
        scene_context dead_goblin_state\<rparr>)\<rparr>"

definition attack_payload :: payload where
  "attack_payload = example_payload\<lparr>p_game_state := dead_goblin_state,
     p_action_type := ''attack the goblin''\<rparr>"

definition combat_begun_state :: GameState where
  "combat_begun_state = dead_goblin_state\<lparr>game_phase := IN_COMBAT,
       initiative_order := [''ent_inst_1'', ''char_1''],
       current_turn_entity_id := Some ''ent_inst_1'',
       story_summary := ''Kara stands at the gate.'',
       previous_turn_narrative := Some ''The wind howls.''\<rparr>"

definition combat_begun_system :: system where
  "combat_begun_system =
     \<lparr>db = [''s1'' \<mapsto> combat_begun_state],
      published = [(''kara'', (event ''NARRATIVE_UPDATE'' ''The wind howls.'')
                                \<lparr>new_game_state := Some combat_begun_state\<rparr>)],
      npc_tasks = [(''s1'', ''kara'')]\<rparr>"

definition sneak_payload :: payload where
  "sneak_payload = example_payload\<lparr>p_game_state := dead_goblin_state,
     p_action_type := ''sneak past the guards''\<rparr>"

definition sneak_env :: env where
  "sneak_env = quiet_env\<lparr>env_rng := [50, 4], env_intent_reply := Reply sneak_intent\<rparr>"

definition sneak_pending :: PendingAction where
  "sneak_pending = \<lparr>acting_character_id = ''char_1'', action_text = ''sneak past the guards'',
     stat_name = ''dexterity'', modifier = 1, dc = 15, dice_roll = 5, is_success = False\<rparr>"

definition sneaking_state :: GameState where
  "sneaking_state = dead_goblin_state\<lparr>game_phase := AWAITING_DICE_ROLL_CONFIRMATION,
     pending_action := Some sneak_pending\<rparr>"

section \<open>Auxiliary definitions\<close>

text \<open>What step 5 of the player task writes, if anything: it is fixed by the final state
  and the initial phase.\<close>

definition post_turn_state :: "string \<Rightarrow> GameState \<Rightarrow> GameState option" where
  "post_turn_state initial_phase final_game_state =
     (if game_phase final_game_state = IN_COMBAT then
        (let (gs1, is_npc_turn) =
               (if initial_phase = IN_COMBAT then advance_turn_in_combat final_game_state
                else (final_game_state,
                      is_npc final_game_state (current_turn_entity_id final_game_state)))
         in if is_npc_turn then Some gs1 else None)
      else if game_phase final_game_state = GAME_IN_PROGRESS then
        (let player_ids = map fst (players final_game_state) in
         case current_turn_entity_id final_game_state of
           None \<Rightarrow> None
         | Some acting_char_id \<Rightarrow>
             (case index_of acting_char_id player_ids of
                None \<Rightarrow> None
              | Some current_idx \<Rightarrow>
                  if 1 < length player_ids
                  then Some (final_game_state\<lparr>current_turn_entity_id :=
                            Some (player_ids ! ((current_idx + 1) mod length player_ids))\<rparr>)
                  else None))
      else None)"


text \<open>
  The worker takes the NPC-turn task at the head of the queue and runs it; the chain of
  NPC turns is this step repeated, one environment for each task, for as long as a task is
  queued. The number returned is the number of tasks that ran.
\<close>

definition run_npc_task :: "env \<Rightarrow> system \<Rightarrow> system" where
  "run_npc_task e sys =
     (case npc_tasks sys of
        [] \<Rightarrow> sys
      | task # rest \<Rightarrow> snd (process_npc_turn_task (fst task) (snd task) e (sys\<lparr>npc_tasks := rest\<rparr>)))"

fun npc_chain :: "env list \<Rightarrow> system \<Rightarrow> nat \<times> system" where
  "npc_chain [] sys = (0, sys)"
| "npc_chain (e # es) sys =
     (if npc_tasks sys = [] then (0, sys)
      else (case npc_chain es (run_npc_task e sys) of (n, sys') \<Rightarrow> (Suc n, sys')))"

text \<open>The invariant of the data model: a pending action exactly while the phase awaits
  the confirmation of the dice roll.\<close>

definition pending_invariant :: "GameState \<Rightarrow> bool" where
  "pending_invariant gs =
     ((pending_action gs \<noteq> None) = (game_phase gs = AWAITING_DICE_ROLL_CONFIRMATION))"

section \<open>Properties\<close>

subsection \<open>Basic facts\<close>

lemma fst_randint:
  "fst (randint a b rng) = a + int (fst (draw rng) mod nat (b - a + 1))"
  by (simp add: randint_def Let_def split: prod.split)

lemma randint_range:
  assumes "a \<le> b"
  shows "a \<le> fst (randint a b rng) \<and> fst (randint a b rng) \<le> b"
proof -
  have pos: "0 < nat (b - a + 1)" using assms by simp
  have n: "int (nat (b - a + 1)) = b - a + 1" using assms by simp
  have lt: "int (r mod nat (b - a + 1)) < int (nat (b - a + 1))" for r
    using pos by (simp only: of_nat_less_iff mod_less_divisor)
  have le: "int (fst (draw rng) mod nat (b - a + 1)) \<le> b - a"
    using lt [of "fst (draw rng)"] n by linarith
  have ge: "0 \<le> int (fst (draw rng) mod nat (b - a + 1))"
    by simp
  show ?thesis
    unfolding fst_randint using le ge by linarith
qed

lemmas task_defs =
  process_game_action_task_def dispatch_def handle_dice_roll_confirmation_def reveal_pending_def
  narrate_turn_def post_turn_def update_game_state_in_db_def publish_result_to_queue_def
  store_actor_def startswith_def randint_def draw_def event_def index_of.simps
  handle_standard_turn_def classify_intent_def process_turn_events_def starts_combat_def
  check_combat_end_def valid_player_turn_def dict_has_def

lemmas example_defs =
  example_payload_def example_system_def awaiting_state_def example_state_def
  example_pending_def narrator_env_def quiet_env_def example_narration_def example_world_def
  kara_def new_character_def example_class_def goblin_def awaiting_system_def
  awaiting_payload_def stale_payload_def stale_snapshot_def newer_system_def newer_state_def
  borin_def npc_turn_state_def

lemma db_update_game_state:
  "db (update_game_state_in_db sid g sys) sid = (if db sys sid = None then None else Some g)"
  by (simp add: update_game_state_in_db_def split: option.split)

lemma db_publish [simp]: "db (publish_result_to_queue c r sys) = db sys"
  by (simp add: publish_result_to_queue_def)

lemma db_delay [simp]: "db (delay_npc_turn sid c sys) = db sys"
  by (simp add: delay_npc_turn_def)

lemma post_turn_cases:
  "(post_turn_state ph final = None \<and> post_turn ph sid c final sys = sys) \<or>
   (\<exists>g. post_turn_state ph final = Some g \<and>
        db (post_turn ph sid c final sys) sid = (if db sys sid = None then None else Some g))"
proof (cases "game_phase final = IN_COMBAT")
  case True
  obtain gs1 npc where x:
    "(if ph = IN_COMBAT then advance_turn_in_combat final
      else (final, is_npc final (current_turn_entity_id final))) = (gs1, npc)"
    by (cases "if ph = IN_COMBAT then advance_turn_in_combat final
      else (final, is_npc final (current_turn_entity_id final))")
  show ?thesis
    using True x by (cases npc) (simp_all add: post_turn_state_def post_turn_def db_update_game_state)
next
  case False
  show ?thesis
  proof (cases "game_phase final = GAME_IN_PROGRESS")
    case gip: True
    show ?thesis
    proof (cases "current_turn_entity_id final")
      case None
      with gip show ?thesis by (simp add: post_turn_state_def post_turn_def)
    next
      case (Some a)
      show ?thesis
      proof (cases "index_of a (map fst (players final))")
        case None
        with gip Some show ?thesis by (simp add: post_turn_state_def post_turn_def)
      next
        case (Some i)
        with gip \<open>current_turn_entity_id final = Some a\<close> show ?thesis
          by (cases "1 < length (map fst (players final))")
             (simp_all add: post_turn_state_def post_turn_def db_update_game_state Let_def)
      qed
    qed
  next
    case other: False
    with False show ?thesis by (simp add: post_turn_state_def post_turn_def)
  qed
qed


lemma task_writes:
  "(\<exists>st. \<forall>sys. process_game_action_task p e sys = (st, sys)) \<or>
   (\<exists>st g. \<forall>sys. db sys (p_session_id p) \<noteq> None \<longrightarrow>
        fst (process_game_action_task p e sys) = st \<and>
        db (snd (process_game_action_task p e sys)) (p_session_id p) = Some g)"
proof (cases "p_action_type p = ''FORCE_GAME_STATE''")
  case True
  then show ?thesis
    by (cases "p_forced p")
       (simp_all add: process_game_action_task_def force_game_state_def db_update_game_state Let_def)
next
  case False
  show ?thesis
  proof (cases "dispatch p e")
    case (EarlyReturn st)
    with False show ?thesis by (simp add: process_game_action_task_def)
  next
    case (Handled h)
    show ?thesis
    proof (cases h)
      case (Inl x)
      with False Handled show ?thesis by (simp add: process_game_action_task_def)
    next
      case (Inr fr)
      obtain final r where fr: "fr = (final, r)" by (cases fr)
      define g where "g = (case post_turn_state (game_phase (p_game_state p)) final of
                             None \<Rightarrow> final | Some g' \<Rightarrow> g')"
      have "fst (process_game_action_task p e sys) = StatusSuccess \<and>
            db (snd (process_game_action_task p e sys)) (p_session_id p) = Some g"
        if row: "db sys (p_session_id p) \<noteq> None" for sys
      proof -
        let ?sys2 = "publish_result_to_queue (p_client_id p)
                       (if new_game_state r = None then r\<lparr>new_game_state := Some final\<rparr> else r)
                       (update_game_state_in_db (p_session_id p) final sys)"
        have t: "process_game_action_task p e sys =
                   (StatusSuccess,
                    post_turn (game_phase (p_game_state p)) (p_session_id p) (p_client_id p)
                      final ?sys2)"
          using False Handled Inr fr by (simp add: process_game_action_task_def Let_def)
        have d: "db ?sys2 (p_session_id p) = Some final"
          using row by (simp add: db_update_game_state)
        from post_turn_cases [of "game_phase (p_game_state p)" final "p_session_id p"
            "p_client_id p" ?sys2]
        show ?thesis
          unfolding t using d by (auto simp: g_def)
      qed
      then show ?thesis by blast
    qed
  qed
qed

lemmas string_defs =
  str_lower_def lower_char_def str_title_def upper_char_def is_alpha_def str_strip_def
  is_space_def is_digit_def digits_val_def digit_val_def py_int_def rsplit_def numeral_3_eq_3
  dict_get_def dict_has_def

lemmas npc_defs =
  run_npc_task_def process_npc_turn_task_def npc_turn_result_def handle_npc_turn_def
  find_npc_def remaining_hostiles_def advance_turn_in_combat_def current_index_def is_npc_def
  dict_has_def update_game_state_in_db_def publish_result_to_queue_def delay_npc_turn_def
  event_def

lemmas more_defs =
  dead_goblin_def dead_goblin_state_def dead_goblin_system_def attack_intent_def attack_env_def
  attack_payload_def find_target_def initiate_combat_def combatants_def sort_rolls_def
  dex_modifier_def is_npc_def delay_npc_turn_def

subsection \<open>The snapshot and the store\<close>

text \<open>
  Claim C1, as stated, fails: the player task works on the snapshot it was sent and never
  reads the store. Here the store already holds a newer state in which the turn has
  passed to the second character; a task that still carries the older snapshot (turn of the
  first character) is not rejected, and what it saves replaces the newer state.
\<close>

theorem stale_snapshot_overwrites:
  "current_turn_entity_id (p_game_state stale_payload) = Some ''char_1'' \<and>
   map_option current_turn_entity_id (db newer_system ''s1'') = Some (Some ''char_2'') \<and>
   map_option story_summary (db newer_system ''s1'') = Some ''Kara has already acted.'' \<and>
   fst (process_game_action_task stale_payload narrator_env newer_system) = StatusSuccess \<and>
   map_option story_summary
     (db (snd (process_game_action_task stale_payload narrator_env newer_system)) ''s1'') =
     Some ''Kara stands at the gate.''"
  by (simp add: task_defs example_defs stale_payload_def stale_snapshot_def newer_system_def
      newer_state_def borin_def Let_def)

text \<open>
  Claim C1, amended. The player task trusts the snapshot of the task message. For any two
  stores that hold the session, it ends with the same status, and either leaves both as
  they are or saves the same state in both: nothing of the stored state is read, and there is
  no stale-action error. The one check of the actor is made on the snapshot: in phase
  \<open>IN_COMBAT\<close> a snapshot whose \<open>current_turn_entity_id\<close> is missing or is not a key
  of \<open>players\<close> ends the task with an error status, and nothing is saved or published.
\<close>

theorem action_task_trusts_snapshot:
  "(\<forall>(sys1 :: system) (sys2 :: system).
      db sys1 (p_session_id p) \<noteq> None \<and> db sys2 (p_session_id p) \<noteq> None \<longrightarrow>
      fst (process_game_action_task p e sys1) = fst (process_game_action_task p e sys2) \<and>
      (snd (process_game_action_task p e sys1) = sys1 \<and>
       snd (process_game_action_task p e sys2) = sys2 \<or>
       db (snd (process_game_action_task p e sys1)) (p_session_id p) =
       db (snd (process_game_action_task p e sys2)) (p_session_id p)))
   \<and> (p_action_type p \<noteq> ''FORCE_GAME_STATE'' \<and> game_phase (p_game_state p) = IN_COMBAT \<and>
       \<not> valid_player_turn (p_game_state p) \<longrightarrow>
       (\<forall>sys. process_game_action_task p e sys = (StatusError not_a_valid_turn, sys)))"
proof (intro conjI allI impI)
  fix sys1 sys2 :: system
  assume rows: "db sys1 (p_session_id p) \<noteq> None \<and> db sys2 (p_session_id p) \<noteq> None"
  from task_writes [of p e] rows
  show "fst (process_game_action_task p e sys1) = fst (process_game_action_task p e sys2)"
    by (metis fst_conv)
  from task_writes [of p e] rows
  show "snd (process_game_action_task p e sys1) = sys1 \<and>
       snd (process_game_action_task p e sys2) = sys2 \<or>
       db (snd (process_game_action_task p e sys1)) (p_session_id p) =
       db (snd (process_game_action_task p e sys2)) (p_session_id p)"
    by (metis snd_conv)
next
  fix sys
  assume "p_action_type p \<noteq> ''FORCE_GAME_STATE'' \<and> game_phase (p_game_state p) = IN_COMBAT \<and>
       \<not> valid_player_turn (p_game_state p)"
  then show "process_game_action_task p e sys = (StatusError not_a_valid_turn, sys)"
    by (simp add: process_game_action_task_def dispatch_def startswith_def Let_def)
qed

theorem action_task_trusts_snapshot_witness:
  "fst (process_game_action_task stale_payload narrator_env newer_system) =
     fst (process_game_action_task stale_payload narrator_env example_system) \<and>
   (snd (process_game_action_task stale_payload narrator_env newer_system) = newer_system \<and>
    snd (process_game_action_task stale_payload narrator_env example_system) = example_system \<or>
    db (snd (process_game_action_task stale_payload narrator_env newer_system)) ''s1'' =
    db (snd (process_game_action_task stale_payload narrator_env example_system)) ''s1'') \<and>
   process_game_action_task (example_payload\<lparr>p_game_state := npc_turn_state\<rparr>) quiet_env
     example_system = (StatusError not_a_valid_turn, example_system)"
proof -
  have rows: "db newer_system (p_session_id stale_payload) \<noteq> None \<and>
              db example_system (p_session_id stale_payload) \<noteq> None"
    by (simp add: newer_system_def example_system_def stale_payload_def example_payload_def)
  have sid: "p_session_id stale_payload = ''s1''"
    by (simp add: stale_payload_def example_payload_def)
  have npc: "p_action_type (example_payload\<lparr>p_game_state := npc_turn_state\<rparr>) \<noteq> ''FORCE_GAME_STATE'' \<and>
      game_phase (p_game_state (example_payload\<lparr>p_game_state := npc_turn_state\<rparr>)) = IN_COMBAT \<and>
      \<not> valid_player_turn (p_game_state (example_payload\<lparr>p_game_state := npc_turn_state\<rparr>))"
    by (simp add: example_payload_def npc_turn_state_def example_state_def valid_player_turn_def
        dict_has_def)
  from action_task_trusts_snapshot [of stale_payload narrator_env] rows sid
    action_task_trusts_snapshot [of "example_payload\<lparr>p_game_state := npc_turn_state\<rparr>" quiet_env] npc
  show ?thesis by metis
qed

subsection \<open>Skill checks, phase 1\<close>

lemma effect_step_sum:
  "s \<noteq> [] \<Longrightarrow>
   effect_step (Some s) eff t = t + (dict_get (modifiers eff) s 0 + dict_get (modifiers eff) ''all'' 0)"
  by (simp add: effect_step_def dict_get_def dict_has_def Let_def split: option.split)

lemma fold_effect_step:
  "s \<noteq> [] \<Longrightarrow>
   fold (effect_step (Some s)) effs t =
     t + (\<Sum>eff\<leftarrow>effs. dict_get (modifiers eff) s 0 + dict_get (modifiers eff) ''all'' 0)"
  by (induction effs arbitrary: t) (simp_all add: effect_step_sum)

lemma apply_effects_sum:
  "s \<noteq> [] \<Longrightarrow>
   apply_effects p (Some s) =
     (\<Sum>eff\<leftarrow>conditions p. dict_get (modifiers eff) s 0 + dict_get (modifiers eff) ''all'' 0)"
  by (simp add: apply_effects_def fold_effect_step)

lemma resolve_stat_name_nonempty: "resolve_stat_name intent p \<noteq> []"
  by (simp add: resolve_stat_name_def str_lower_def split: option.split)

lemma startswith_append: "startswith (k @ b) k"
  by (simp add: startswith_def)

lemma str_contains_mid: "str_contains (a @ k @ b) k"
proof (induction a)
  case Nil
  show ?case
  proof (cases "k @ b")
    case Nil
    then show ?thesis by simp
  next
    case (Cons c cs)
    have "startswith (c # cs) k" using startswith_append [of k b] Cons by simp
    then show ?thesis using Cons by simp
  qed
next
  case (Cons x a)
  then show ?case by simp
qed

lemma challenge_text_states:
  "str_contains (challenge_text description stat d m) (str_title stat) \<and>
   str_contains (challenge_text description stat d m) (str_int d)"
proof -
  have 1: "challenge_text description stat d m =
      (''You prepare to '' @ apostrophe @ description @ apostrophe @ ''. '' @
       ''This will require a '') @ str_title stat @
      ('' check against a Difficulty Class (DC) of '' @ str_int d @ ''. '' @
       ''(Your character'' @ apostrophe @ ''s total modifier for this is '' @
       fmt_plus m @ '').'')"
    by (simp add: challenge_text_def)
  have 2: "challenge_text description stat d m =
      (''You prepare to '' @ apostrophe @ description @ apostrophe @ ''. '' @
       ''This will require a '' @ str_title stat @
       '' check against a Difficulty Class (DC) of '') @ str_int d @
      (''. '' @ ''(Your character'' @ apostrophe @ ''s total modifier for this is '' @
       fmt_plus m @ '').'')"
    by (simp add: challenge_text_def)
  show ?thesis
    using str_contains_mid [of _ "str_title stat"] str_contains_mid [of _ "str_int d"]
    by (metis 1 2)
qed

text \<open>
  Claim C4, as stated, fails at one point: the difficulty class is \<^verbatim>\<open>intent.required_dc or 12\<close>,
  so a requested difficulty class of 0 is not taken from the intent but replaced by 12.
\<close>

theorem zero_dc_replaced:
  "required_dc zero_dc_intent = Some 0 \<and>
   map_option dc (pending_action (fst (handle_skill_check_intent zero_dc_intent example_state
      blessed_kara [13]))) = Some 12"
  by (simp add: handle_skill_check_intent_def resolve_dc_def zero_dc_intent_def climb_intent_def
      Let_def split: prod.split)

text \<open>
  Claim C4, amended. For every intent, state, acting character and random source, phase 1
  of a skill check changes the phase to \<open>AWAITING_DICE_ROLL_CONFIRMATION\<close>, stores one
  pending action and changes nothing else. In the pending action: the stat is the lowered
  stat of the intent when that is one of the stats of the character, and dexterity
  otherwise; the modifier is \<open>floor((value - 10) / 2)\<close> for the value of that stat (10 when
  the character has none), negative below 10, plus the sum over all conditions of the
  character of the modifier under the name of the stat and of the modifier under \<open>all\<close>,
  both counted; the difficulty class is the one of the intent when it is given and is not 0,
  and 12 otherwise; the roll is between 1 and 20; the success flag says whether roll plus
  modifier reaches the difficulty class. The text returned contains the stat and the
  difficulty class and is the same for every random source, so it shows neither the roll
  nor the outcome.
\<close>

theorem skill_check_phase_one:
  "\<exists>pa. fst (handle_skill_check_intent intent gs actor rng) =
          gs\<lparr>game_phase := AWAITING_DICE_ROLL_CONFIRMATION, pending_action := Some pa\<rparr> \<and>
        acting_character_id pa = character_id actor \<and>
        action_text pa = action_description intent \<and>
        stat_name pa =
          (case relevant_stat intent of
             None \<Rightarrow> ''dexterity''
           | Some s \<Rightarrow> if s \<noteq> [] \<and> dict_has (stats actor) (str_lower s)
                       then str_lower s else ''dexterity'') \<and>
        modifier pa =
          (dict_get (stats actor) (stat_name pa) 10 - 10) div 2 +
          (\<Sum>eff\<leftarrow>conditions actor.
              dict_get (modifiers eff) (stat_name pa) 0 + dict_get (modifiers eff) ''all'' 0) \<and>
        (dict_get (stats actor) (stat_name pa) 10 < 10 \<longrightarrow>
           (dict_get (stats actor) (stat_name pa) 10 - 10) div 2 < 0) \<and>
        dc pa = (case required_dc intent of
                   None \<Rightarrow> 12
                 | Some d \<Rightarrow> if d = 0 then 12 else d) \<and>
        1 \<le> dice_roll pa \<and> dice_roll pa \<le> 20 \<and>
        is_success pa = (dc pa \<le> dice_roll pa + modifier pa) \<and>
        snd (handle_skill_check_intent intent gs actor rng) =
          challenge_text (action_description intent) (stat_name pa) (dc pa) (modifier pa) \<and>
        str_contains (snd (handle_skill_check_intent intent gs actor rng))
          (str_title (stat_name pa)) \<and>
        str_contains (snd (handle_skill_check_intent intent gs actor rng)) (str_int (dc pa)) \<and>
        (\<forall>rng'. snd (handle_skill_check_intent intent gs actor rng') =
                snd (handle_skill_check_intent intent gs actor rng))"
proof -
  define stat where "stat = resolve_stat_name intent actor"
  define total where "total = (dict_get (stats actor) stat 10 - 10) div 2 + apply_effects actor (Some stat)"
  define roll where "roll = fst (randint 1 20 rng)"
  define pa where "pa = \<lparr>acting_character_id = character_id actor,
                  action_text = action_description intent,
                  stat_name = stat, modifier = total, dc = resolve_dc intent,
                  dice_roll = roll, is_success = (resolve_dc intent \<le> roll + total)\<rparr>"
  have res: "handle_skill_check_intent intent gs actor rng' =
        (gs\<lparr>game_phase := AWAITING_DICE_ROLL_CONFIRMATION,
            pending_action := Some (pa\<lparr>dice_roll := fst (randint 1 20 rng'),
               is_success := (resolve_dc intent \<le> fst (randint 1 20 rng') + total)\<rparr>)\<rparr>,
         challenge_text (action_description intent) stat (resolve_dc intent) total)" for rng'
    by (simp add: handle_skill_check_intent_def Let_def pa_def stat_def total_def roll_def
        split: prod.split)
  have res0: "handle_skill_check_intent intent gs actor rng =
        (gs\<lparr>game_phase := AWAITING_DICE_ROLL_CONFIRMATION, pending_action := Some pa\<rparr>,
         challenge_text (action_description intent) stat (resolve_dc intent) total)"
    by (simp add: res pa_def roll_def)
  have ne: "stat \<noteq> []" by (simp add: stat_def resolve_stat_name_nonempty)
  have rng: "1 \<le> roll \<and> roll \<le> 20"
    unfolding roll_def using randint_range [of 1 20 rng] by simp
  have neg: "dict_get (stats actor) stat 10 < 10 \<longrightarrow> (dict_get (stats actor) stat 10 - 10) div 2 < 0"
    by linarith
  have st: "stat_name pa = stat" "modifier pa = total" "dc pa = resolve_dc intent"
    "dice_roll pa = roll" "is_success pa = (resolve_dc intent \<le> roll + total)"
    "acting_character_id pa = character_id actor" "action_text pa = action_description intent"
    by (simp_all add: pa_def)
  have stat_eq: "stat =
          (case relevant_stat intent of
             None \<Rightarrow> ''dexterity''
           | Some s \<Rightarrow> if s \<noteq> [] \<and> dict_has (stats actor) (str_lower s)
                       then str_lower s else ''dexterity'')"
    by (simp add: stat_def resolve_stat_name_def)
  have dc_eq: "resolve_dc intent = (case required_dc intent of
                   None \<Rightarrow> 12
                 | Some d \<Rightarrow> if d = 0 then 12 else d)"
    by (simp add: resolve_dc_def split: option.split)
  have total_eq: "total = (dict_get (stats actor) stat 10 - 10) div 2 +
          (\<Sum>eff\<leftarrow>conditions actor.
              dict_get (modifiers eff) stat 0 + dict_get (modifiers eff) ''all'' 0)"
    by (simp add: total_def apply_effects_sum [OF ne])
  have ctxt: "snd (handle_skill_check_intent intent gs actor rng') =
          challenge_text (action_description intent) stat (resolve_dc intent) total" for rng'
    by (simp add: res)
  have fst0: "fst (handle_skill_check_intent intent gs actor rng) =
          gs\<lparr>game_phase := AWAITING_DICE_ROLL_CONFIRMATION, pending_action := Some pa\<rparr>"
    by (simp add: res0)
  note cts = challenge_text_states [of "action_description intent" stat "resolve_dc intent" total]
  show ?thesis
    apply (rule exI [of _ pa])
    unfolding st ctxt fst0
    apply (intro conjI allI)
                apply (rule refl)
               apply (rule refl)
              apply (rule refl)
             apply (rule stat_eq)
            apply (rule total_eq)
           apply (rule neg)
          apply (rule dc_eq)
         apply (rule conjunct1 [OF rng])
        apply (rule conjunct2 [OF rng])
       apply (rule refl)
      apply (rule refl)
     apply (rule conjunct1 [OF cts])
    apply (rule conjunct2 [OF cts])
    apply (rule refl)
    done
qed

theorem skill_check_phase_one_witness:
  "\<exists>pa. pending_action (fst (handle_skill_check_intent climb_intent example_state blessed_kara [13]))
           = Some pa \<and>
        stat_name pa = ''strength'' \<and> modifier pa = 0 \<and> dc pa = 15 \<and>
        1 \<le> dice_roll pa \<and> dice_roll pa \<le> 20 \<and>
        is_success pa = (15 \<le> dice_roll pa)"
proof -
  from skill_check_phase_one [of climb_intent example_state blessed_kara "[13]"]
  obtain pa where pa:
    "fst (handle_skill_check_intent climb_intent example_state blessed_kara [13]) =
       example_state\<lparr>game_phase := AWAITING_DICE_ROLL_CONFIRMATION, pending_action := Some pa\<rparr>"
    "stat_name pa =
          (case relevant_stat climb_intent of
             None \<Rightarrow> ''dexterity''
           | Some s \<Rightarrow> if s \<noteq> [] \<and> dict_has (stats blessed_kara) (str_lower s)
                       then str_lower s else ''dexterity'')"
    "modifier pa =
          (dict_get (stats blessed_kara) (stat_name pa) 10 - 10) div 2 +
          (\<Sum>eff\<leftarrow>conditions blessed_kara.
              dict_get (modifiers eff) (stat_name pa) 0 + dict_get (modifiers eff) ''all'' 0)"
    "dc pa = (case required_dc climb_intent of
                   None \<Rightarrow> 12
                 | Some d \<Rightarrow> if d = 0 then 12 else d)"
    "1 \<le> dice_roll pa" "dice_roll pa \<le> 20"
    "is_success pa = (dc pa \<le> dice_roll pa + modifier pa)"
    by blast
  have s: "stat_name pa = ''strength''"
    using pa(2)
    by (simp add: climb_intent_def blessed_kara_def kara_def new_character_def example_class_def
        string_defs)
  have m: "modifier pa = 0"
    using pa(3) unfolding s
    by (simp add: blessed_kara_def kara_def new_character_def example_class_def dict_get_def)
  have d: "dc pa = 15" using pa(4) by (simp add: climb_intent_def)
  show ?thesis
    apply (rule exI [of _ pa])
    using pa(1,5,6,7) s m d by simp
qed

subsection \<open>Skill checks, phase 2\<close>


lemma reveal_pending_failure:
  "\<not> is_success pa \<Longrightarrow> map_of (players gs) (acting_character_id pa) = Some actor \<Longrightarrow>
   reveal_pending gs pa rng =
     Inr ((store_actor (Some (acting_character_id pa))
             (actor\<lparr>health := health actor - fst (randint 1 4 rng)\<rparr>) gs)
            \<lparr>pending_action := None, game_phase := GAME_IN_PROGRESS\<rparr>,
          failure_text pa (fst (randint 1 4 rng)))"
  by (simp add: reveal_pending_def Let_def split: prod.split)

lemma narrate_turn_reply:
  "world gs = Some w \<Longrightarrow> env_turn_reply e = Reply r \<Longrightarrow>
   narrate_turn gs (Some p) e =
     Inr (gs\<lparr>story_summary := updated_summary r, scene_context := updated_scene_context r,
             quest_log := updated_quest_log r, previous_turn_narrative := Some (narrative r)\<rparr>,
          (event ''NARRATIVE_UPDATE'' (narrative r))
            \<lparr>new_game_state := Some (gs\<lparr>story_summary := updated_summary r,
               scene_context := updated_scene_context r,
               quest_log := updated_quest_log r,
               previous_turn_narrative := Some (narrative r)\<rparr>)\<rparr>)"
  by (simp add: narrate_turn_def Let_def)


lemma confirmation_failure:
  assumes "pending_action gs = Some pa" "world gs = Some w"
    "map_of (players gs) (acting_character_id pa) = Some actor" "env_turn_reply e = Reply r"
    "\<not> is_success pa"
  shows "\<exists>gs' res. handle_dice_roll_confirmation gs e = Inr (gs', res) \<and>
           pending_action gs' = None \<and> game_phase gs' = GAME_IN_PROGRESS \<and>
           players gs' = AList.update (acting_character_id pa)
              (actor\<lparr>health := health actor - fst (randint 1 4 (env_rng e))\<rparr>) (players gs)"
  using assms
  by (simp add: handle_dice_roll_confirmation_def reveal_pending_failure narrate_turn_reply
      store_actor_def update_conv')




subsection \<open>Initiative\<close>

lemma combatants_phase [simp]: "combatants (gs\<lparr>game_phase := ph\<rparr>) = combatants gs"
  by (simp add: combatants_def)




lemma initiate_combat_unfold:
  "initiate_combat gs rng =
     (let order = map fst (sort_rolls (initiative_rolls (combatants gs) rng)) in
      gs\<lparr>game_phase := IN_COMBAT, initiative_order := order,
         current_turn_entity_id :=
           (case order of [] \<Rightarrow> current_turn_entity_id gs | first # _ \<Rightarrow> Some first)\<rparr>)"
  by (simp add: initiate_combat_def Let_def split: list.split)



subsection \<open>The end of combat\<close>

text \<open>On the player path the end of combat clears the initiative order.\<close>

lemma check_combat_end_clears:
  "game_phase gs = IN_COMBAT \<Longrightarrow> \<not> remaining_hostiles gs \<Longrightarrow>
   fst (check_combat_end p (gs, out)) =
     gs\<lparr>game_phase := GAME_IN_PROGRESS, initiative_order := [],
        current_turn_entity_id := Some (character_id p)\<rparr>"
  by (simp add: check_combat_end_def)

lemma attack_starts_combat: "starts_combat attack_intent dead_goblin_state"
  by (simp add: starts_combat_def find_target_def more_defs example_state_def goblin_def
      string_defs)

lemma attack_initiative:
  "initiate_combat dead_goblin_state [3, 18] =
     dead_goblin_state\<lparr>game_phase := IN_COMBAT,
       initiative_order := [''ent_inst_1'', ''char_1''],
       current_turn_entity_id := Some ''ent_inst_1''\<rparr>"
  by (simp add: initiate_combat_unfold combatants_def sort_rolls_def dex_modifier_def
      dead_goblin_state_def dead_goblin_def example_state_def goblin_def kara_def
      new_character_def example_class_def randint_def draw_def dict_get_def Let_def)

lemma dead_goblin_fields:
  "game_phase dead_goblin_state = GAME_IN_PROGRESS"
  "current_turn_entity_id dead_goblin_state = Some ''char_1''"
  "players dead_goblin_state = [(''char_1'', kara)]"
  "world dead_goblin_state = Some example_world"
  "pending_action dead_goblin_state = None"
  "quest_log dead_goblin_state = []"
  "entities (scene_context dead_goblin_state) = [dead_goblin]"
  by (simp_all add: dead_goblin_state_def example_state_def)

lemma attack_env_fields:
  "env_rng attack_env = [3, 18]"
  "env_intent_reply attack_env = Reply attack_intent"
  "env_turn_reply attack_env = Reply (example_narration\<lparr>updated_scene_context :=
        scene_context dead_goblin_state\<rparr>)"
  by (simp_all add: attack_env_def quiet_env_def)

lemma attack_handled:
  "dispatch attack_payload attack_env =
     Handled (Inr (combat_begun_state,
                   (event ''NARRATIVE_UPDATE'' ''The wind howls.'')
                     \<lparr>new_game_state := Some combat_begun_state\<rparr>))"
proof -
  have 1: "process_turn_events attack_intent dead_goblin_state kara (Some ''char_1'') [3, 18] =
           (initiate_combat dead_goblin_state [3, 18], combat_begins_message, False)"
    by (simp add: process_turn_events_def attack_starts_combat)
  have 2: "handle_standard_turn dead_goblin_state ''char_1'' ''attack the goblin'' attack_env =
           narrate_turn (initiate_combat dead_goblin_state [3, 18]) (Some kara) attack_env"
    by (simp add: handle_standard_turn_def dead_goblin_fields attack_env_fields classify_intent_def
        1 attack_initiative)
  have 3: "narrate_turn (initiate_combat dead_goblin_state [3, 18]) (Some kara) attack_env =
           Inr (combat_begun_state,
                   (event ''NARRATIVE_UPDATE'' ''The wind howls.'')
                     \<lparr>new_game_state := Some combat_begun_state\<rparr>)"
    apply (subst attack_initiative)
    apply (simp add: narrate_turn_def attack_env_fields example_narration_def
        combat_begun_state_def dead_goblin_state_def example_state_def Let_def)
    done
  show ?thesis
    by (simp add: dispatch_def attack_payload_def example_payload_def dead_goblin_fields
        valid_player_turn_def dict_has_def startswith_def 2 3 Let_def)
qed

lemma combat_begun_fields:
  "game_phase combat_begun_state = IN_COMBAT"
  "current_turn_entity_id combat_begun_state = Some ''ent_inst_1''"
  "players combat_begun_state = [(''char_1'', kara)]"
  "initiative_order combat_begun_state = [''ent_inst_1'', ''char_1'']"
  "entities (scene_context combat_begun_state) = [dead_goblin]"
  "pending_action combat_begun_state = None"
  by (simp_all add: combat_begun_state_def dead_goblin_fields)

lemma attack_task:
  "process_game_action_task attack_payload attack_env dead_goblin_system =
     (StatusSuccess, combat_begun_system)"
proof -
  have p: "p_action_type attack_payload = ''attack the goblin''"
    "p_session_id attack_payload = ''s1''" "p_client_id attack_payload = ''kara''"
    "game_phase (p_game_state attack_payload) = GAME_IN_PROGRESS"
    by (simp_all add: attack_payload_def example_payload_def dead_goblin_fields)
  show ?thesis
    by (simp add: process_game_action_task_def attack_handled p post_turn_def
        combat_begun_fields is_npc_def dict_has_def update_game_state_in_db_def
        publish_result_to_queue_def delay_npc_turn_def dead_goblin_system_def
        combat_begun_system_def event_def Let_def)
qed

lemma dead_goblin_cannot_act:
  "npc_turn_result combat_begun_state e =
     (combat_begun_state\<lparr>game_phase := GAME_IN_PROGRESS\<rparr>,
      ''Goblin cannot act.'' @ combat_ended_message, False)"
  by (simp add: npc_turn_result_def handle_npc_turn_def find_npc_def combat_begun_fields
      remaining_hostiles_def dead_goblin_def goblin_def Let_def)

text \<open>
  Claim C2: the code departs from it on the NPC path. A player attacks a hostile goblin
  whose health is 0; combat begins and the goblin wins the initiative, so an NPC task is
  queued. That task finds no living hostile and sets the phase to \<open>GAME_IN_PROGRESS\<close>,
  but, unlike the player path, it does not clear the initiative order: the saved state is
  out of combat with both ids still in \<open>initiative_order\<close>.
\<close>

theorem npc_turn_ends_combat_with_initiative:
  "process_game_action_task attack_payload attack_env dead_goblin_system =
     (StatusSuccess, combat_begun_system) \<and>
   game_phase combat_begun_state = IN_COMBAT \<and>
   \<not> remaining_hostiles combat_begun_state \<and>
   npc_tasks combat_begun_system = [(''s1'', ''kara'')] \<and>
   db (run_npc_task quiet_env combat_begun_system) ''s1'' =
     Some (combat_begun_state\<lparr>game_phase := GAME_IN_PROGRESS\<rparr>) \<and>
   initiative_order (combat_begun_state\<lparr>game_phase := GAME_IN_PROGRESS\<rparr>) =
     [''ent_inst_1'', ''char_1'']"
  by (simp add: attack_task combat_begun_fields remaining_hostiles_def dead_goblin_def goblin_def
      run_npc_task_def process_npc_turn_task_def dead_goblin_cannot_act combat_begun_system_def
      update_game_state_in_db_def publish_result_to_queue_def Let_def)

subsection \<open>Character details\<close>
















subsection \<open>The chain of NPC turns\<close>

lemma index_of_nth:
  "distinct xs \<Longrightarrow> j < length xs \<Longrightarrow> index_of (xs ! j) xs = Some j"
proof (induction xs arbitrary: j)
  case Nil
  then show ?case by simp
next
  case (Cons x xs)
  show ?case
  proof (cases j)
    case 0
    then show ?thesis by simp
  next
    case (Suc j')
    with Cons.prems have "xs ! j' \<in> set xs" by simp
    with Cons.prems have "xs ! j' \<noteq> x" by auto
    with Cons Suc show ?thesis by simp
  qed
qed

lemma index_of_Some:
  "index_of x xs = Some i \<Longrightarrow> i < length xs \<and> xs ! i = x"
  by (induction xs arbitrary: i) (auto split: if_splits)

lemma index_of_None: "index_of x xs = None \<longleftrightarrow> x \<notin> set xs"
  by (induction xs) auto

lemma in_set_position: "k \<in> set xs \<Longrightarrow> \<exists>j < length xs. xs ! j = k"
  by (simp add: in_set_conv_nth)

text \<open>An NPC whose actor cannot be built leaves the state as it was.\<close>

lemma handle_npc_turn_idle:
  "env_npc_actor_reply e = Raises x \<Longrightarrow> fst (handle_npc_turn gs npc_id e) = gs"
  by (simp add: handle_npc_turn_def split: option.split reply.split)

lemma npc_turn_result_idle:
  assumes "env_npc_actor_reply e = Raises x"
  shows "fst (npc_turn_result gs e) =
           (if remaining_hostiles gs then fst (advance_turn_in_combat gs)
            else gs\<lparr>game_phase := GAME_IN_PROGRESS\<rparr>) \<and>
         snd (snd (npc_turn_result gs e)) =
           (remaining_hostiles gs \<and> snd (advance_turn_in_combat gs))"
proof -
  obtain g t where h: "handle_npc_turn gs (current_turn_entity_id gs) e = (g, t)"
    by (cases "handle_npc_turn gs (current_turn_entity_id gs) e")
  with handle_npc_turn_idle [OF assms, of gs "current_turn_entity_id gs"] have g: "g = gs"
    by simp
  show ?thesis
    by (simp add: npc_turn_result_def h g Let_def split: prod.split)
qed

lemma run_npc_task_step:
  assumes "db sys sid = Some gs" "npc_tasks sys = [(sid, c)]"
  shows "db (run_npc_task e sys) sid = Some (fst (npc_turn_result gs e)) \<and>
         npc_tasks (run_npc_task e sys) =
           (if snd (snd (npc_turn_result gs e)) then [(sid, c)] else [])"
proof -
  obtain g t a where r: "npc_turn_result gs e = (g, t, a)"
    by (cases "npc_turn_result gs e") auto
  show ?thesis
    using assms
    by (cases a)
       (simp_all add: run_npc_task_def process_npc_turn_task_def r update_game_state_in_db_def
          publish_result_to_queue_def delay_npc_turn_def Let_def)
qed

lemma advance_at:
  assumes "current_index gs = Some i"
  shows "advance_turn_in_combat gs =
           (gs\<lparr>current_turn_entity_id :=
                 Some (initiative_order gs ! ((i + 1) mod length (initiative_order gs)))\<rparr>,
            \<not> dict_has (players gs)
                 (initiative_order gs ! ((i + 1) mod length (initiative_order gs))))"
  using assms by (simp add: advance_turn_in_combat_def is_npc_def Let_def)

lemma advance_lost:
  assumes "current_index gs = None" "initiative_order gs = first # rest"
  shows "advance_turn_in_combat gs =
           (gs\<lparr>current_turn_entity_id := Some first\<rparr>, \<not> dict_has (players gs) first)"
  using assms by (simp add: advance_turn_in_combat_def is_npc_def Let_def)

lemma npc_chain_idle: "npc_tasks sys = [] \<Longrightarrow> npc_chain es sys = (0, sys)"
  by (cases es) simp_all

lemma chain_reaches_player:
  assumes "0 < d" "d \<le> length es"
    "\<forall>e \<in> set es. \<exists>x. env_npc_actor_reply e = Raises x"
    "db sys sid = Some gs" "npc_tasks sys = [(sid, c)]"
    "distinct (initiative_order gs)" "current_index gs = Some i"
    "dict_has (players gs) (initiative_order gs ! ((i + d) mod length (initiative_order gs)))"
  shows "\<exists>m sys'. npc_chain es sys = (m, sys') \<and> m \<le> d \<and> npc_tasks sys' = []"
  using assms
proof (induction d arbitrary: es sys gs i)
  case 0
  then show ?case by simp
next
  case (Suc d')
  let ?order = "initiative_order gs"
  let ?n = "length ?order"
  let ?j = "(i + 1) mod ?n"
  from Suc.prems(2) obtain e es' where es: "es = e # es'" by (cases es) auto
  from Suc.prems(3) es obtain x where ex: "env_npc_actor_reply e = Raises x" by auto
  have i_lt: "i < ?n"
    using Suc.prems(7) index_of_Some [of _ ?order i]
    by (auto simp: current_index_def split: option.splits)
  then have "0 < ?n" by (cases "initiative_order gs") simp_all
  then have j_lt: "?j < ?n" by (rule mod_less_divisor)
  let ?sys1 = "run_npc_task e sys"
  note step = run_npc_task_step [OF Suc.prems(4) Suc.prems(5), of e]
  note res = npc_turn_result_idle [OF ex, of gs]
  have unfold: "npc_chain es sys = (case npc_chain es' ?sys1 of (n, sys') \<Rightarrow> (Suc n, sys'))"
    using es Suc.prems(5) by simp
  show ?case
  proof (cases "snd (snd (npc_turn_result gs e))")
    case False
    with step have "npc_tasks ?sys1 = []" by simp
    then have "npc_chain es' ?sys1 = (0, ?sys1)" by (rule npc_chain_idle)
    with unfold \<open>npc_tasks ?sys1 = []\<close> show ?thesis by simp
  next
    case True
    with res have rh: "remaining_hostiles gs" and npc: "snd (advance_turn_in_combat gs)"
      by simp_all
    from npc advance_at [OF Suc.prems(7)]
    have not_player: "\<not> dict_has (players gs) (?order ! ?j)" by simp
    have d'_pos: "0 < d'"
    proof (rule ccontr)
      assume "\<not> 0 < d'"
      then have "d' = 0" by simp
      with Suc.prems(8) not_player show False by simp
    qed
    let ?g1 = "gs\<lparr>current_turn_entity_id := Some (?order ! ?j)\<rparr>"
    have g1: "fst (npc_turn_result gs e) = ?g1"
      using res rh advance_at [OF Suc.prems(7)] by simp
    have db1: "db ?sys1 sid = Some ?g1" using step g1 by simp
    have q1: "npc_tasks ?sys1 = [(sid, c)]" using step True by simp
    have ci: "current_index ?g1 = Some ?j"
      using index_of_nth [OF Suc.prems(6) j_lt] by (simp add: current_index_def)
    have md: "(?j + d') mod ?n = (i + Suc d') mod ?n"
      by (simp add: mod_add_left_eq)
    have pl: "dict_has (players ?g1)
                (initiative_order ?g1 ! ((?j + d') mod length (initiative_order ?g1)))"
      using Suc.prems(8) md by simp
    have envs: "\<forall>e \<in> set es'. \<exists>x. env_npc_actor_reply e = Raises x"
      using Suc.prems(3) es by simp
    have len: "d' \<le> length es'" using Suc.prems(2) es by simp
    have dist: "distinct (initiative_order ?g1)" using Suc.prems(6) by simp
    from Suc.IH [OF d'_pos len envs db1 q1 dist ci pl]
    obtain m sys' where "npc_chain es' ?sys1 = (m, sys')" "m \<le> d'" "npc_tasks sys' = []"
      by blast
    with unfold show ?thesis by simp
  qed
qed

text \<open>
  Claim C8, as stated, fails: nothing caps the chain. With an initiative list that holds
  two living hostile entities and no player (the session has three combatants), every NPC
  task queues the next one: after four tasks a fifth is waiting.
\<close>

theorem npc_chain_unbounded:
  "length (combatants corrupt_state) = 3 \<and>
   fst (npc_chain [quiet_env, quiet_env, quiet_env, quiet_env] corrupt_system) = 4 \<and>
   npc_tasks (snd (npc_chain [quiet_env, quiet_env, quiet_env, quiet_env] corrupt_system)) =
     [(''s1'', ''kara'')]"
  by (simp add: npc_defs combatants_def corrupt_system_def corrupt_state_def example_state_def
      goblin_def wolf_def kara_def new_character_def example_class_def quiet_env_def Let_def)

text \<open>
  Claim C8, amended. The worker has no depth counter. An NPC task queues another one
  exactly when a hostile entity is still alive and the next id of the initiative order is
  not a player. So the chain ends when the next actor is a player or when no hostile is
  left. When the initiative order has no repeated id and holds the id of a player, and the
  NPC turns leave the state as it is (building the acting character from a scene entity
  raises, so the NPC only hesitates), the chain started by one queued task ends after at
  most as many tasks as the initiative order has entries.
\<close>

theorem npc_chain_stops:
  assumes "db sys sid = Some gs" "npc_tasks sys = [(sid, c)]"
    "distinct (initiative_order gs)" "k \<in> set (initiative_order gs)" "dict_has (players gs) k"
    "\<forall>e \<in> set es. \<exists>x. env_npc_actor_reply e = Raises x"
    "length (initiative_order gs) \<le> length es"
  shows "(\<exists>m sys'. npc_chain es sys = (m, sys') \<and> m \<le> length (initiative_order gs) \<and>
                  npc_tasks sys' = []) \<and>
         (\<forall>e \<in> set es. snd (snd (npc_turn_result gs e)) =
                          (remaining_hostiles gs \<and> snd (advance_turn_in_combat gs)))"
proof
  let ?order = "initiative_order gs"
  let ?n = "length ?order"
  from in_set_position [OF assms(4)] obtain j where j: "j < ?n" "?order ! j = k" by blast
  show "\<exists>m sys'. npc_chain es sys = (m, sys') \<and> m \<le> ?n \<and> npc_tasks sys' = []"
  proof (cases "current_index gs")
    case (Some i)
    have i_lt: "i < ?n"
      using Some index_of_Some [of _ ?order i]
      by (auto simp: current_index_def split: option.splits)
    define d where "d = (if i < j then j - i else j + ?n - i)"
    have d_pos: "0 < d" using i_lt j(1) by (simp add: d_def)
    have d_le: "d \<le> ?n" using i_lt j(1) by (auto simp: d_def)
    have "(i + d) mod ?n = j"
    proof (cases "i < j")
      case True
      then have "i + d = j" by (simp add: d_def)
      with j(1) show ?thesis by simp
    next
      case False
      then have "i + d = j + ?n" using i_lt by (simp add: d_def)
      with j(1) show ?thesis by simp
    qed
    with j(2) assms(5) have pl: "dict_has (players gs) (?order ! ((i + d) mod ?n))" by simp
    from d_le assms(7) have fuel: "d \<le> length es" by simp
    from chain_reaches_player [OF d_pos fuel assms(6) assms(1) assms(2) assms(3) Some pl]
    obtain m sys' where "npc_chain es sys = (m, sys')" "m \<le> d" "npc_tasks sys' = []" by blast
    with d_le show ?thesis by auto
  next
    case None
    from j(1) obtain first rest where order: "?order = first # rest"
      by (cases ?order) auto
    from j(1) assms(7) obtain e es' where es: "es = e # es'" by (cases es) auto
    from assms(6) es obtain x where ex: "env_npc_actor_reply e = Raises x" by auto
    let ?sys1 = "run_npc_task e sys"
    note step = run_npc_task_step [OF assms(1) assms(2), of e]
    note res = npc_turn_result_idle [OF ex, of gs]
    have unfold: "npc_chain es sys = (case npc_chain es' ?sys1 of (n, sys') \<Rightarrow> (Suc n, sys'))"
      using es assms(2) by simp
    have n_pos: "1 \<le> ?n" using j(1) by simp
    show ?thesis
    proof (cases "snd (snd (npc_turn_result gs e))")
      case False
      with step have q: "npc_tasks ?sys1 = []" by simp
      then have "npc_chain es' ?sys1 = (0, ?sys1)" by (rule npc_chain_idle)
      with unfold q n_pos show ?thesis by simp
    next
      case True
      with res have rh: "remaining_hostiles gs" and npc: "snd (advance_turn_in_combat gs)"
        by simp_all
      from npc advance_lost [OF None order]
      have not_player: "\<not> dict_has (players gs) first" by simp
      have j_pos: "0 < j"
      proof (rule ccontr)
        assume "\<not> 0 < j"
        then have "?order ! j = first" using order by simp
        with j(2) assms(5) not_player show False by simp
      qed
      let ?g1 = "gs\<lparr>current_turn_entity_id := Some first\<rparr>"
      have g1: "fst (npc_turn_result gs e) = ?g1"
        using res rh advance_lost [OF None order] by simp
      have db1: "db ?sys1 sid = Some ?g1" using step g1 by simp
      have q1: "npc_tasks ?sys1 = [(sid, c)]" using step True by simp
      have ci: "current_index ?g1 = Some 0"
        by (simp add: current_index_def order)
      have pl: "dict_has (players ?g1)
                  (initiative_order ?g1 ! ((0 + j) mod length (initiative_order ?g1)))"
        using j assms(5) by simp
      have envs: "\<forall>e \<in> set es'. \<exists>x. env_npc_actor_reply e = Raises x"
        using assms(6) es by simp
      have len: "j \<le> length es'" using j(1) assms(7) es by simp
      have dist: "distinct (initiative_order ?g1)" using assms(3) by simp
      from chain_reaches_player [OF j_pos len envs db1 q1 dist ci pl]
      obtain m sys' where "npc_chain es' ?sys1 = (m, sys')" "m \<le> j" "npc_tasks sys' = []"
        by blast
      with unfold j(1) show ?thesis by simp
    qed
  qed
next
  show "\<forall>e \<in> set es. snd (snd (npc_turn_result gs e)) =
                          (remaining_hostiles gs \<and> snd (advance_turn_in_combat gs))"
    using assms(6) npc_turn_result_idle by blast
qed

theorem npc_chain_stops_witness:
  "\<exists>m sys'. npc_chain [quiet_env, quiet_env, quiet_env] combat_system = (m, sys') \<and> m \<le> 3 \<and>
             npc_tasks sys' = []"
proof -
  have a: "db combat_system ''s1'' = Some combat_state"
    "npc_tasks combat_system = [(''s1'', ''kara'')]"
    by (simp_all add: combat_system_def)
  have b: "distinct (initiative_order combat_state)"
    "''char_1'' \<in> set (initiative_order combat_state)"
    "dict_has (players combat_state) ''char_1''"
    "length (initiative_order combat_state) = 3"
    by (simp_all add: combat_state_def corrupt_state_def example_state_def dict_has_def)
  have c: "\<forall>e \<in> set [quiet_env, quiet_env, quiet_env]. \<exists>x. env_npc_actor_reply e = Raises x"
    by (simp add: quiet_env_def)
  have d: "length (initiative_order combat_state) \<le> length [quiet_env, quiet_env, quiet_env]"
    using b(4) by simp
  from npc_chain_stops [OF a b(1) b(2) b(3) c d] b(4)
  show ?thesis by simp
qed

subsection \<open>Awaiting the confirmation\<close>

text \<open>
  Claim C9, as stated, fails: the dispatcher never looks at the action type while the
  phase is \<open>AWAITING_DICE_ROLL_CONFIRMATION\<close>. The action \<open>look around\<close> resolves the
  pending skill check: the task succeeds, the pending action is gone, the phase is
  \<open>GAME_IN_PROGRESS\<close> and the failed check has cost the character three points of health.
\<close>

theorem awaiting_accepts_other_input:
  "p_action_type awaiting_payload \<noteq> ''CONFIRM_DICE_ROLL'' \<and>
   fst (process_game_action_task awaiting_payload narrator_env awaiting_system) = StatusSuccess \<and>
   map_option pending_action
     (db (snd (process_game_action_task awaiting_payload narrator_env awaiting_system)) ''s1'') = Some None \<and>
   map_option game_phase
     (db (snd (process_game_action_task awaiting_payload narrator_env awaiting_system)) ''s1'') =
     Some GAME_IN_PROGRESS \<and>
   map_option (\<lambda>g. map_option health (map_of (players g) ''char_1''))
     (db (snd (process_game_action_task awaiting_payload narrator_env awaiting_system)) ''s1'') =
     Some (Some 97)"
  by (simp add: task_defs example_defs Let_def)

text \<open>
  Claim C9, amended. In phase \<open>AWAITING_DICE_ROLL_CONFIRMATION\<close> every action type other
  than \<open>FORCE_GAME_STATE\<close> is handled as \<open>CONFIRM_DICE_ROLL\<close> is: the dispatcher calls
  the phase-2 resolution, and the whole task has the same result.
\<close>

theorem awaiting_ignores_action_type:
  assumes "game_phase (p_game_state p) = AWAITING_DICE_ROLL_CONFIRMATION"
    and "p_action_type p \<noteq> ''FORCE_GAME_STATE''"
  shows "dispatch p e = Handled (handle_dice_roll_confirmation (p_game_state p) e) \<and>
         process_game_action_task p e sys =
           process_game_action_task (p\<lparr>p_action_type := ''CONFIRM_DICE_ROLL''\<rparr>) e sys"
  using assms
  by (simp add: process_game_action_task_def dispatch_def startswith_def Let_def
      split: sum.split prod.split)


theorem awaiting_ignores_action_type_witness:
  "process_game_action_task awaiting_payload narrator_env awaiting_system =
     process_game_action_task (awaiting_payload\<lparr>p_action_type := ''CONFIRM_DICE_ROLL''\<rparr>)
       narrator_env awaiting_system"
proof -
  have a: "game_phase (p_game_state awaiting_payload) = AWAITING_DICE_ROLL_CONFIRMATION"
    by (simp add: awaiting_payload_def awaiting_state_def)
  have b: "p_action_type awaiting_payload \<noteq> ''FORCE_GAME_STATE''"
    by (simp add: awaiting_payload_def)
  from awaiting_ignores_action_type [OF a b] show ?thesis by blast
qed

subsection \<open>The escape hatch\<close>



subsection \<open>The pending action and its phase\<close>

lemma store_actor_fields [simp]:
  "game_phase (store_actor home p gs) = game_phase gs"
  "pending_action (store_actor home p gs) = pending_action gs"
  by (simp_all add: store_actor_def split: option.split)

lemma inventory_fields:
  "game_phase (fst (handle_inventory_intent intent gs p home)) = game_phase gs \<and>
   pending_action (fst (handle_inventory_intent intent gs p home)) = pending_action gs"
  by (simp add: handle_inventory_intent_def Let_def split: option.split)

lemma attack_fields:
  "game_phase (fst (handle_attack_intent intent gs p rng)) = game_phase gs \<and>
   pending_action (fst (handle_attack_intent intent gs p rng)) = pending_action gs"
  by (simp add: handle_attack_intent_def Let_def split: option.split prod.split)

lemma skill_check_invariant:
  "pending_invariant (fst (handle_skill_check_intent intent gs p rng))"
  by (simp add: handle_skill_check_intent_def pending_invariant_def Let_def split: prod.split)

lemma initiate_combat_fields:
  "game_phase (initiate_combat gs rng) = IN_COMBAT \<and>
   pending_action (initiate_combat gs rng) = pending_action gs"
  by (simp add: initiate_combat_unfold Let_def)

lemma check_combat_end_invariant:
  "pending_invariant gs \<Longrightarrow> pending_invariant (fst (check_combat_end p (gs, out)))"
  by (simp add: check_combat_end_def pending_invariant_def)

lemma idle_invariant:
  "pending_action gs = None \<Longrightarrow> game_phase gs \<noteq> AWAITING_DICE_ROLL_CONFIRMATION \<Longrightarrow>
   pending_invariant gs"
  by (simp add: pending_invariant_def)

lemma process_turn_events_invariant:
  assumes "pending_action gs = None" "game_phase gs \<noteq> AWAITING_DICE_ROLL_CONFIRMATION"
  shows "pending_invariant (fst (process_turn_events intent gs p home rng))"
proof (cases "starts_combat intent gs")
  case True
  then show ?thesis
    using assms initiate_combat_fields [of gs rng]
    by (simp add: process_turn_events_def pending_invariant_def)
next
  case False
  obtain d100 rng1 where r: "randint 1 100 rng = (d100, rng1)" by (cases "randint 1 100 rng")
  define step where "step =
     (if intent_type intent = ''MANAGE_INVENTORY''
      then handle_inventory_intent intent gs p home
      else if intent_type intent = ''SKILL_CHECK''
      then handle_skill_check_intent intent gs p rng1
      else if intent_type intent = ''ATTACK''
      then handle_attack_intent intent gs p rng1
      else (gs, ''The player takes a moment to interact with their surroundings.''))"
  have inv: "pending_invariant (fst step)"
    using assms inventory_fields [of intent gs p home] attack_fields [of intent gs p rng1]
      skill_check_invariant [of intent gs p rng1]
    by (auto simp: step_def pending_invariant_def)
  obtain gs1 out where s: "step = (gs1, out)" by (cases step)
  with inv have "pending_invariant (fst (check_combat_end p (gs1, [out])))"
    by (simp add: check_combat_end_invariant)
  moreover have "fst (process_turn_events intent gs p home rng) =
                 fst (check_combat_end p (gs1, [out]))"
    using False r s
    by (simp add: process_turn_events_def step_def [symmetric] Let_def split: prod.split)
  ultimately show ?thesis by simp
qed

lemma narrate_turn_fields:
  "narrate_turn gs ap e = Inr (g, r) \<Longrightarrow>
   game_phase g = game_phase gs \<and> pending_action g = pending_action gs"
  by (auto simp: narrate_turn_def Let_def split: option.splits reply.splits)

lemma narrate_turn_invariant:
  "narrate_turn gs ap e = Inr (g, r) \<Longrightarrow> pending_invariant gs \<Longrightarrow> pending_invariant g"
  using narrate_turn_fields [of gs ap e g r] by (simp add: pending_invariant_def)

lemma standard_turn_invariant:
  assumes "handle_standard_turn gs cid txt e = Inr (g, r)"
    "pending_action gs = None" "game_phase gs \<noteq> AWAITING_DICE_ROLL_CONFIRMATION"
  shows "pending_invariant g"
proof (cases "map_of (players gs) cid")
  case None
  with assms show ?thesis by (simp add: handle_standard_turn_def idle_invariant)
next
  case (Some actor)
  obtain gs1 out danger where
    pte: "process_turn_events (classify_intent (env_intent_reply e)) gs actor (Some cid) (env_rng e)
            = (gs1, out, danger)"
    by (cases "process_turn_events (classify_intent (env_intent_reply e)) gs actor (Some cid) (env_rng e)")
       auto
  have inv1: "pending_invariant gs1"
    using process_turn_events_invariant [OF assms(2,3), of "classify_intent (env_intent_reply e)"
        actor "Some cid" "env_rng e"] pte by simp
  show ?thesis
  proof (cases "game_phase gs1 = AWAITING_DICE_ROLL_CONFIRMATION")
    case True
    with assms(1) Some pte have "g = gs1" by (simp add: handle_standard_turn_def Let_def)
    with inv1 show ?thesis by simp
  next
    case False
    with assms(1) Some pte have "narrate_turn gs1 (Some actor) e = Inr (g, r)"
      by (simp add: handle_standard_turn_def Let_def)
    from this inv1 show ?thesis by (rule narrate_turn_invariant)
  qed
qed

lemma confirmation_invariant:
  assumes "handle_dice_roll_confirmation gs e = Inr (g, r)" "pending_invariant gs"
  shows "pending_invariant g"
proof (cases "pending_action gs")
  case None
  with assms show ?thesis by (simp add: handle_dice_roll_confirmation_def)
next
  case (Some pa)
  show ?thesis
  proof (cases "reveal_pending gs pa (env_rng e)")
    case (Inl x)
    with assms(1) Some show ?thesis by (simp add: handle_dice_roll_confirmation_def)
  next
    case (Inr res)
    obtain gs1 out where res: "res = (gs1, out)" by (cases res)
    have "pending_action gs1 = None \<and> game_phase gs1 = GAME_IN_PROGRESS"
      using Inr res
      by (auto simp: reveal_pending_def Let_def split: if_splits prod.splits option.splits)
    then have inv1: "pending_invariant gs1" by (simp add: pending_invariant_def)
    from assms(1) Some Inr res
    have "narrate_turn gs1 (map_of (players gs1) (acting_character_id pa)) e = Inr (g, r)"
      by (simp add: handle_dice_roll_confirmation_def)
    from this inv1 show ?thesis by (rule narrate_turn_invariant)
  qed
qed

lemma start_new_game_invariant:
  "handle_start_new_game gs e = Inr (g, r) \<Longrightarrow> pending_action gs = None \<Longrightarrow>
   pending_invariant g"
  by (auto simp: handle_start_new_game_def pending_invariant_def Let_def split: reply.splits)

lemma world_selection_invariant:
  "handle_world_selection gs txt e = Inr (g, r) \<Longrightarrow> pending_action gs = None \<Longrightarrow>
   game_phase gs \<noteq> AWAITING_DICE_ROLL_CONFIRMATION \<Longrightarrow> pending_invariant g"
  by (auto simp: handle_world_selection_def pending_invariant_def Let_def split: if_splits)

lemma start_adventure_invariant:
  "start_adventure gs e = Inr (g, r) \<Longrightarrow> pending_action gs = None \<Longrightarrow> pending_invariant g"
  by (auto simp: start_adventure_def pending_invariant_def Let_def
      split: if_splits option.splits reply.splits)

lemma create_character_invariant:
  assumes "create_character gs txt e = Inr (g, r)" "pending_action gs = None"
    "game_phase gs \<noteq> AWAITING_DICE_ROLL_CONFIRMATION"
  shows "pending_invariant g"
proof (cases "length (rsplit txt CHR '','' 3) \<noteq> 4")
  case True
  with assms show ?thesis by (simp add: create_character_def idle_invariant Let_def)
next
  case False
  show ?thesis
  proof (cases "py_int (str_strip (rsplit txt CHR '','' 3 ! 1))")
    case None
    with assms False show ?thesis by (simp add: create_character_def idle_invariant Let_def)
  next
    case (Some years)
    show ?thesis
    proof (cases "pending_character_class gs")
      case None
      with assms False Some show ?thesis by (simp add: create_character_def Let_def)
    next
      case cls: (Some pending_class)
      show ?thesis
      proof (cases "characters_created gs + 1 < num_players_to_create gs")
        case True
        with assms False Some cls show ?thesis
          by (auto simp: create_character_def pending_invariant_def Let_def split: option.splits)
      next
        case last: False
        with assms False Some cls obtain gs3 where
          "start_adventure gs3 e = Inr (g, r)" "pending_action gs3 = None"
          by (simp add: create_character_def Let_def)
        then show ?thesis by (rule start_adventure_invariant)
      qed
    qed
  qed
qed

lemma character_creation_invariant:
  assumes "handle_character_creation gs client txt e = Inr (g, r)" "pending_action gs = None"
    "game_phase gs \<noteq> AWAITING_DICE_ROLL_CONFIRMATION"
  shows "pending_invariant g"
proof (cases "game_phase gs = ''CHARACTER_CREATION_DETAILS''")
  case True
  with assms have "create_character gs txt e = Inr (g, r)"
    by (simp add: handle_character_creation_def Let_def)
  with assms show ?thesis by (simp add: create_character_invariant)
next
  case False
  with assms show ?thesis
    by (auto simp: handle_character_creation_def pending_invariant_def Let_def
        split: if_splits option.splits reply.splits)
qed

lemma invariant_idle:
  "pending_invariant gs \<Longrightarrow> game_phase gs \<noteq> AWAITING_DICE_ROLL_CONFIRMATION \<Longrightarrow>
   pending_action gs = None"
  by (simp add: pending_invariant_def)

lemma dispatch_invariant:
  assumes "pending_invariant (p_game_state p)" "dispatch p e = Handled (Inr (g, r))"
  shows "pending_invariant g"
proof -
  let ?gs = "p_game_state p"
  let ?ph = "game_phase ?gs"
  consider (new) "?ph = NEW_GAME"
    | (world) "?ph = WORLD_SELECTION"
    | (creation) "?ph \<noteq> NEW_GAME" "?ph \<noteq> WORLD_SELECTION" "startswith ?ph ''CHARACTER_CREATION''"
    | (awaiting) "?ph = AWAITING_DICE_ROLL_CONFIRMATION"
    | (combat) "?ph = IN_COMBAT"
    | (progress) "?ph = GAME_IN_PROGRESS"
    | (other) "?ph \<noteq> NEW_GAME" "?ph \<noteq> WORLD_SELECTION" "\<not> startswith ?ph ''CHARACTER_CREATION''"
        "?ph \<noteq> AWAITING_DICE_ROLL_CONFIRMATION" "?ph \<noteq> IN_COMBAT" "?ph \<noteq> GAME_IN_PROGRESS"
    by blast
  then show ?thesis
  proof cases
    case new
    then have idle: "pending_action ?gs = None" using assms(1) by (simp add: pending_invariant_def)
    from new assms(2) have "handle_start_new_game ?gs e = Inr (g, r)"
      by (simp add: dispatch_def Let_def)
    with idle show ?thesis by (simp add: start_new_game_invariant)
  next
    case world
    then have idle: "pending_action ?gs = None" "?ph \<noteq> AWAITING_DICE_ROLL_CONFIRMATION"
      using assms(1) by (simp_all add: pending_invariant_def)
    from world assms(2) have "handle_world_selection ?gs (p_action_type p) e = Inr (g, r)"
      by (simp add: dispatch_def Let_def)
    with idle show ?thesis by (simp add: world_selection_invariant)
  next
    case creation
    from creation(3) have na: "?ph \<noteq> AWAITING_DICE_ROLL_CONFIRMATION"
      by (auto simp: startswith_def)
    with assms(1) have idle: "pending_action ?gs = None" by (rule invariant_idle)
    from creation assms(2)
    have "handle_character_creation ?gs (p_client_id p) (p_action_type p) e = Inr (g, r)"
      by (simp add: dispatch_def Let_def)
    with idle na show ?thesis by (simp add: character_creation_invariant)
  next
    case awaiting
    with assms(2) have "handle_dice_roll_confirmation ?gs e = Inr (g, r)"
      by (simp add: dispatch_def startswith_def Let_def)
    with assms(1) show ?thesis by (simp add: confirmation_invariant)
  next
    case combat
    then have idle: "pending_action ?gs = None" "?ph \<noteq> AWAITING_DICE_ROLL_CONFIRMATION"
      using assms(1) by (simp_all add: pending_invariant_def)
    from combat assms(2) obtain cid where
      "handle_standard_turn ?gs cid (p_action_type p) e = Inr (g, r)"
      by (auto simp: dispatch_def startswith_def Let_def split: if_splits option.splits)
    with idle show ?thesis by (simp add: standard_turn_invariant)
  next
    case progress
    then have idle: "pending_action ?gs = None" "?ph \<noteq> AWAITING_DICE_ROLL_CONFIRMATION"
      using assms(1) by (simp_all add: pending_invariant_def)
    from progress assms(2) obtain cid gs' where
      h: "handle_standard_turn gs' cid (p_action_type p) e = Inr (g, r)"
      and f: "pending_action gs' = pending_action ?gs" "game_phase gs' = ?ph"
      by (auto simp: dispatch_def startswith_def Let_def split: if_splits option.splits)
    with idle show ?thesis by (simp add: standard_turn_invariant)
  next
    case other
    with assms show ?thesis by (simp add: dispatch_def Let_def)
  qed
qed

lemma advance_fields:
  "game_phase (fst (advance_turn_in_combat gs)) = game_phase gs \<and>
   pending_action (fst (advance_turn_in_combat gs)) = pending_action gs"
  by (simp add: advance_turn_in_combat_def Let_def split: option.split list.split)

lemma post_turn_state_invariant:
  assumes "post_turn_state ph final = Some g" "pending_invariant final"
  shows "pending_invariant g"
proof -
  have "game_phase g = game_phase final \<and> pending_action g = pending_action final"
    using assms(1) advance_fields [of final]
    by (auto simp: post_turn_state_def Let_def split: if_splits option.splits prod.splits)
  with assms(2) show ?thesis by (simp add: pending_invariant_def)
qed

lemma task_saves:
  assumes "p_action_type p \<noteq> ''FORCE_GAME_STATE''" "dispatch p e = Handled (Inr (final, r))"
    "db sys (p_session_id p) \<noteq> None"
  shows "db (snd (process_game_action_task p e sys)) (p_session_id p) =
           Some (case post_turn_state (game_phase (p_game_state p)) final of
                   None \<Rightarrow> final | Some g' \<Rightarrow> g')"
proof -
  let ?sys2 = "publish_result_to_queue (p_client_id p)
                 (if new_game_state r = None then r\<lparr>new_game_state := Some final\<rparr> else r)
                 (update_game_state_in_db (p_session_id p) final sys)"
  have t: "process_game_action_task p e sys =
             (StatusSuccess,
              post_turn (game_phase (p_game_state p)) (p_session_id p) (p_client_id p)
                final ?sys2)"
    using assms(1,2) by (simp add: process_game_action_task_def Let_def)
  have d: "db ?sys2 (p_session_id p) = Some final"
    using assms(3) by (simp add: db_update_game_state)
  from post_turn_cases [of "game_phase (p_game_state p)" final "p_session_id p"
      "p_client_id p" ?sys2]
  show ?thesis
    unfolding t using d by auto
qed

lemma task_untouched:
  assumes "p_action_type p \<noteq> ''FORCE_GAME_STATE''" "\<nexists>final r. dispatch p e = Handled (Inr (final, r))"
  shows "snd (process_game_action_task p e sys) = sys"
proof (cases "dispatch p e")
  case (EarlyReturn st)
  with assms(1) show ?thesis by (simp add: process_game_action_task_def)
next
  case (Handled h)
  with assms(2) obtain x where "h = Inl x" by (cases h) auto
  with assms(1) Handled show ?thesis by (simp add: process_game_action_task_def)
qed

lemma npc_task_saves:
  "db sys sid = Some g \<Longrightarrow>
   db (snd (process_npc_turn_task sid c e sys)) sid = Some (fst (npc_turn_result g e))"
  by (simp add: process_npc_turn_task_def update_game_state_in_db_def publish_result_to_queue_def
      delay_npc_turn_def Let_def split: prod.split)

lemma sneak_skill_check:
  "fst (handle_skill_check_intent sneak_intent dead_goblin_state kara [4]) = sneaking_state"
  by (simp add: handle_skill_check_intent_def resolve_dc_def resolve_stat_name_def
      apply_effects_def sneak_intent_def kara_def new_character_def example_class_def
      randint_def draw_def string_defs sneaking_state_def sneak_pending_def Let_def)

lemma sneak_handled:
  "\<exists>r. dispatch sneak_payload sneak_env = Handled (Inr (sneaking_state, r))"
proof -
  have i: "intent_type sneak_intent = ''SKILL_CHECK''" by (simp add: sneak_intent_def)
  have ns: "\<not> starts_combat sneak_intent dead_goblin_state"
    by (simp add: starts_combat_def i)
  have e: "env_rng sneak_env = [50, 4]" "env_intent_reply sneak_env = Reply sneak_intent"
    by (simp_all add: sneak_env_def quiet_env_def)
  have r: "randint 1 100 [50, 4] = (51, [4])" by (simp add: randint_def draw_def)
  obtain out where sk: "handle_skill_check_intent sneak_intent dead_goblin_state kara [4] =
      (sneaking_state, out)"
    using sneak_skill_check by (cases "handle_skill_check_intent sneak_intent dead_goblin_state kara [4]") auto
  have ph: "game_phase sneaking_state = AWAITING_DICE_ROLL_CONFIRMATION"
    by (simp add: sneaking_state_def)
  have pte: "\<exists>out. process_turn_events sneak_intent dead_goblin_state kara (Some ''char_1'') [50, 4] =
           (sneaking_state, out, False)"
    by (simp add: process_turn_events_def ns r i sk check_combat_end_def ph Let_def)
  then obtain out' where pte': "process_turn_events sneak_intent dead_goblin_state kara (Some ''char_1'') [50, 4] =
           (sneaking_state, out', False)" by blast
  have h: "\<exists>r. handle_standard_turn dead_goblin_state ''char_1'' ''sneak past the guards'' sneak_env =
           Inr (sneaking_state, r)"
    by (simp add: handle_standard_turn_def dead_goblin_fields e classify_intent_def pte' ph)
  then show ?thesis
    by (simp add: dispatch_def sneak_payload_def example_payload_def dead_goblin_fields
        valid_player_turn_def dict_has_def startswith_def Let_def)
qed

lemma sneak_task_saves:
  "db (snd (process_game_action_task sneak_payload sneak_env combat_begun_system)) ''s1'' =
     Some sneaking_state \<and>
   npc_tasks (snd (process_game_action_task sneak_payload sneak_env combat_begun_system)) =
     [(''s1'', ''kara'')]"
proof -
  from sneak_handled obtain r where d: "dispatch sneak_payload sneak_env = Handled (Inr (sneaking_state, r))"
    by blast
  have p: "p_action_type sneak_payload = ''sneak past the guards''"
    "p_session_id sneak_payload = ''s1''" "p_client_id sneak_payload = ''kara''"
    by (simp_all add: sneak_payload_def example_payload_def)
  have ph: "game_phase sneaking_state = AWAITING_DICE_ROLL_CONFIRMATION"
    by (simp add: sneaking_state_def)
  show ?thesis
    by (simp add: process_game_action_task_def d p post_turn_def ph
        update_game_state_in_db_def publish_result_to_queue_def combat_begun_system_def Let_def)
qed

lemma sneaking_fields:
  "current_turn_entity_id sneaking_state = Some ''char_1''"
  "entities (scene_context sneaking_state) = [dead_goblin]"
  "game_phase sneaking_state = AWAITING_DICE_ROLL_CONFIRMATION"
  "pending_action sneaking_state = Some sneak_pending"
  by (simp_all add: sneaking_state_def dead_goblin_fields)

lemma npc_turn_while_awaiting:
  "fst (npc_turn_result sneaking_state e) = sneaking_state\<lparr>game_phase := GAME_IN_PROGRESS\<rparr>"
  by (simp add: npc_turn_result_def handle_npc_turn_def find_npc_def sneaking_fields
      remaining_hostiles_def dead_goblin_def goblin_def Let_def)

text \<open>
  Claim C3, as stated, fails. The session is in progress, with a hostile goblin of health 0
  in the scene, and the invariant holds. The client sends two messages before the worker
  has run: the endpoint gives both tasks the same snapshot. The first task (an attack on
  the goblin) starts combat, the goblin wins the initiative and an NPC task is queued. The
  second task, on its older snapshot, is a skill check: it saves a state that awaits the
  confirmation, with its pending action. The NPC task then loads that state, finds no
  living hostile and sets the phase to \<open>GAME_IN_PROGRESS\<close>: the saved state has a
  pending action outside the phase \<open>AWAITING_DICE_ROLL_CONFIRMATION\<close>.
\<close>

theorem pending_action_outlives_phase:
  "pending_invariant dead_goblin_state \<and>
   websocket_task_payload ''s1'' ''kara'' ''attack the goblin'' NoPayload ''en'' dead_goblin_system =
     Some attack_payload \<and>
   websocket_task_payload ''s1'' ''kara'' ''sneak past the guards'' NoPayload ''en'' dead_goblin_system =
     Some sneak_payload \<and>
   process_game_action_task attack_payload attack_env dead_goblin_system =
     (StatusSuccess, combat_begun_system) \<and>
   db (snd (process_game_action_task sneak_payload sneak_env combat_begun_system)) ''s1'' =
     Some sneaking_state \<and>
   pending_invariant sneaking_state \<and>
   npc_tasks (snd (process_game_action_task sneak_payload sneak_env combat_begun_system)) =
     [(''s1'', ''kara'')] \<and>
   db (run_npc_task quiet_env
         (snd (process_game_action_task sneak_payload sneak_env combat_begun_system))) ''s1'' =
     Some (sneaking_state\<lparr>game_phase := GAME_IN_PROGRESS\<rparr>) \<and>
   pending_action (sneaking_state\<lparr>game_phase := GAME_IN_PROGRESS\<rparr>) = Some sneak_pending \<and>
   \<not> pending_invariant (sneaking_state\<lparr>game_phase := GAME_IN_PROGRESS\<rparr>)"
proof -
  have w: "websocket_task_payload ''s1'' ''kara'' ''attack the goblin'' NoPayload ''en''
             dead_goblin_system = Some attack_payload"
    "websocket_task_payload ''s1'' ''kara'' ''sneak past the guards'' NoPayload ''en''
             dead_goblin_system = Some sneak_payload"
    by (simp_all add: websocket_task_payload_def dead_goblin_system_def attack_payload_def
        sneak_payload_def example_payload_def dead_goblin_state_def example_state_def)
  have i: "pending_invariant dead_goblin_state" "pending_invariant sneaking_state"
    "\<not> pending_invariant (sneaking_state\<lparr>game_phase := GAME_IN_PROGRESS\<rparr>)"
    "pending_action (sneaking_state\<lparr>game_phase := GAME_IN_PROGRESS\<rparr>) = Some sneak_pending"
    by (simp_all add: pending_invariant_def dead_goblin_fields sneaking_fields)
  let ?sys2 = "snd (process_game_action_task sneak_payload sneak_env combat_begun_system)"
  note s = sneak_task_saves
  have n: "db (run_npc_task quiet_env ?sys2) ''s1'' =
             Some (sneaking_state\<lparr>game_phase := GAME_IN_PROGRESS\<rparr>)"
    using run_npc_task_step [of ?sys2 "''s1''" sneaking_state "''kara''" quiet_env] s
    by (simp add: npc_turn_while_awaiting)
  show ?thesis
    using w i s n attack_task by simp
qed

text \<open>
  Claim C3, amended. A player task other than \<open>FORCE_GAME_STATE\<close> whose snapshot
  satisfies the invariant (a pending action exactly in phase
  \<open>AWAITING_DICE_ROLL_CONFIRMATION\<close>) either leaves the system as it is or saves a state
  that satisfies it. An NPC task that loads a state satisfying the invariant and not
  awaiting a confirmation saves a state that satisfies it (the NPC itself cannot act, as
  building its acting character raises). Phase 1 of a skill check sets the pending action
  and the phase together; the phase-2 resolution of a pending action clears it and leaves
  the phase for \<open>GAME_IN_PROGRESS\<close>. The NPC task run on a state that awaits a
  confirmation is left out.
\<close>

theorem pending_invariant_preserved:
  "(pending_invariant (p_game_state p) \<and> p_action_type p \<noteq> ''FORCE_GAME_STATE'' \<and>
    db sys (p_session_id p) \<noteq> None \<longrightarrow>
      snd (process_game_action_task p e sys) = sys \<or>
      (\<exists>g. db (snd (process_game_action_task p e sys)) (p_session_id p) = Some g \<and>
           pending_invariant g)) \<and>
   (\<forall>g x. db sys sid = Some g \<and> pending_invariant g \<and>
          game_phase g \<noteq> AWAITING_DICE_ROLL_CONFIRMATION \<and>
          env_npc_actor_reply e = Raises x \<longrightarrow>
      (\<exists>g'. db (snd (process_npc_turn_task sid c e sys)) sid = Some g' \<and> pending_invariant g')) \<and>
   pending_invariant (fst (handle_skill_check_intent intent gs actor rng)) \<and>
   (\<forall>g r. handle_dice_roll_confirmation gs e = Inr (g, r) \<and> pending_action gs \<noteq> None \<longrightarrow>
      pending_action g = None \<and> game_phase g = GAME_IN_PROGRESS)"
proof (intro conjI allI impI)
  assume a: "pending_invariant (p_game_state p) \<and> p_action_type p \<noteq> ''FORCE_GAME_STATE'' \<and>
    db sys (p_session_id p) \<noteq> None"
  show "snd (process_game_action_task p e sys) = sys \<or>
      (\<exists>g. db (snd (process_game_action_task p e sys)) (p_session_id p) = Some g \<and>
           pending_invariant g)"
  proof (cases "\<exists>final r. dispatch p e = Handled (Inr (final, r))")
    case False
    with a task_untouched [of p e sys] show ?thesis by blast
  next
    case True
    then obtain final r where d: "dispatch p e = Handled (Inr (final, r))" by blast
    from a have "pending_invariant (p_game_state p)" by simp
    from this d have inv: "pending_invariant final" by (rule dispatch_invariant)
    let ?g = "case post_turn_state (game_phase (p_game_state p)) final of
                   None \<Rightarrow> final | Some g' \<Rightarrow> g'"
    have "pending_invariant ?g"
      using inv post_turn_state_invariant [of "game_phase (p_game_state p)" final]
      by (cases "post_turn_state (game_phase (p_game_state p)) final") simp_all
    moreover have "db (snd (process_game_action_task p e sys)) (p_session_id p) = Some ?g"
      using a d by (simp add: task_saves)
    ultimately show ?thesis by blast
  qed
next
  fix g x
  assume a: "db sys sid = Some g \<and> pending_invariant g \<and>
          game_phase g \<noteq> AWAITING_DICE_ROLL_CONFIRMATION \<and>
          env_npc_actor_reply e = Raises x"
  then have idle: "pending_action g = None" by (auto simp: pending_invariant_def)
  from a have r: "fst (npc_turn_result g e) =
           (if remaining_hostiles g then fst (advance_turn_in_combat g)
            else g\<lparr>game_phase := GAME_IN_PROGRESS\<rparr>)"
    using npc_turn_result_idle [of e x g] by simp
  have "pending_invariant (fst (npc_turn_result g e))"
    unfolding r using a idle advance_fields [of g] by (simp add: pending_invariant_def)
  with a npc_task_saves [of sys sid g c e]
  show "\<exists>g'. db (snd (process_npc_turn_task sid c e sys)) sid = Some g' \<and> pending_invariant g'"
    by simp
next
  show "pending_invariant (fst (handle_skill_check_intent intent gs actor rng))"
    by (rule skill_check_invariant)
next
  fix g r
  assume a: "handle_dice_roll_confirmation gs e = Inr (g, r) \<and> pending_action gs \<noteq> None"
  then obtain pa where pa: "pending_action gs = Some pa" by auto
  show "pending_action g = None" "game_phase g = GAME_IN_PROGRESS"
  proof -
    from a pa obtain gs1 out where
      rv: "reveal_pending gs pa (env_rng e) = Inr (gs1, out)" and
      nt: "narrate_turn gs1 (map_of (players gs1) (acting_character_id pa)) e = Inr (g, r)"
      by (auto simp: handle_dice_roll_confirmation_def split: sum.splits)
    have "pending_action gs1 = None \<and> game_phase gs1 = GAME_IN_PROGRESS"
      using rv
      by (auto simp: reveal_pending_def Let_def split: if_splits prod.splits option.splits)
    with narrate_turn_fields [OF nt]
    show "pending_action g = None" "game_phase g = GAME_IN_PROGRESS" by simp_all
  qed
qed

theorem pending_invariant_preserved_witness:
  "(\<exists>g. db (snd (process_game_action_task sneak_payload sneak_env dead_goblin_system)) ''s1'' =
          Some g \<and> pending_invariant g) \<and>
   (\<exists>g'. db (snd (process_npc_turn_task ''s1'' ''kara'' quiet_env combat_begun_system)) ''s1'' =
          Some g' \<and> pending_invariant g') \<and>
   pending_invariant (fst (handle_skill_check_intent sneak_intent dead_goblin_state kara [4])) \<and>
   (\<exists>g r. handle_dice_roll_confirmation awaiting_state narrator_env = Inr (g, r) \<and>
          pending_action g = None \<and> game_phase g = GAME_IN_PROGRESS)"
proof -
  have a: "pending_invariant (p_game_state sneak_payload) \<and>
           p_action_type sneak_payload \<noteq> ''FORCE_GAME_STATE'' \<and>
           db dead_goblin_system (p_session_id sneak_payload) \<noteq> None"
    by (simp add: sneak_payload_def example_payload_def pending_invariant_def dead_goblin_fields
        dead_goblin_system_def)
  have sid: "p_session_id sneak_payload = ''s1''"
    by (simp add: sneak_payload_def example_payload_def)
  have changed: "snd (process_game_action_task sneak_payload sneak_env dead_goblin_system) \<noteq>
                 dead_goblin_system"
  proof
    assume "snd (process_game_action_task sneak_payload sneak_env dead_goblin_system) =
            dead_goblin_system"
    then have "db (snd (process_game_action_task sneak_payload sneak_env dead_goblin_system)) ''s1'' =
               Some dead_goblin_state"
      by (simp add: dead_goblin_system_def)
    moreover from sneak_handled obtain r where
      "dispatch sneak_payload sneak_env = Handled (Inr (sneaking_state, r))" by blast
    then have "db (snd (process_game_action_task sneak_payload sneak_env dead_goblin_system)) ''s1'' =
               Some sneaking_state"
      using task_saves [of sneak_payload sneak_env sneaking_state r dead_goblin_system] a sid
      by (simp add: post_turn_state_def sneaking_fields sneak_payload_def example_payload_def)
    ultimately show False
      by (simp add: sneaking_state_def dead_goblin_state_def example_state_def)
  qed
  have b: "db combat_begun_system ''s1'' = Some combat_begun_state \<and>
           pending_invariant combat_begun_state \<and>
           game_phase combat_begun_state \<noteq> AWAITING_DICE_ROLL_CONFIRMATION \<and>
           env_npc_actor_reply quiet_env = Raises ValueError"
    by (simp add: combat_begun_system_def pending_invariant_def combat_begun_fields quiet_env_def)
  from pending_invariant_preserved [of sneak_payload dead_goblin_system sneak_env] a changed sid
  have 1: "\<exists>g. db (snd (process_game_action_task sneak_payload sneak_env dead_goblin_system)) ''s1'' =
          Some g \<and> pending_invariant g"
    by auto
  from pending_invariant_preserved [of _ combat_begun_system quiet_env "''s1''" "''kara''"] b
  have 2: "\<exists>g'. db (snd (process_npc_turn_task ''s1'' ''kara'' quiet_env combat_begun_system)) ''s1'' =
          Some g' \<and> pending_invariant g'"
    by blast
  from pending_invariant_preserved [of _ _ _ _ _ sneak_intent dead_goblin_state kara "[4]"]
  have 3: "pending_invariant (fst (handle_skill_check_intent sneak_intent dead_goblin_state kara [4]))"
    by blast
  have f: "pending_action awaiting_state = Some example_pending" "world awaiting_state = Some example_world"
    "map_of (players awaiting_state) (acting_character_id example_pending) = Some kara"
    "env_turn_reply narrator_env = Reply example_narration" "\<not> is_success example_pending"
    by (simp_all add: awaiting_state_def example_state_def example_pending_def narrator_env_def
        quiet_env_def)
  from confirmation_failure [OF f] obtain g r where
    h: "handle_dice_roll_confirmation awaiting_state narrator_env = Inr (g, r)" by blast
  from pending_invariant_preserved [of _ _ narrator_env _ _ _ awaiting_state] h f(1)
  have "pending_action g = None \<and> game_phase g = GAME_IN_PROGRESS" by auto
  with h have 4: "\<exists>g r. handle_dice_roll_confirmation awaiting_state narrator_env = Inr (g, r) \<and>
          pending_action g = None \<and> game_phase g = GAME_IN_PROGRESS" by blast
  from 1 2 3 4 show ?thesis by blast
qed

end
